theory Spec2Isabelle
  imports Main "HOL-Library.Sublist"
begin

section \<open>The relational store\<close>

text \<open>
  The server keeps its state in SQL tables and reaches them through \<open>Database.run\<close>,
  \<open>Database.get\<close> and \<open>Database.all\<close>. A table is modelled as the list of its rows in
  insertion order, a row as a record of the columns that the modelled statements read or
  write. Display texts (names, descriptions, image paths) and the booster columns of
  \<open>users\<close> are carried by no modelled statement and are left out. A nullable column is an
  \<open>option\<close>. An instant (\<open>new Date()\<close>, \<open>CURRENT_TIMESTAMP\<close>) is a natural number.
\<close>

type_synonym ident = string
type_synonym instant = nat

text \<open>
  The numbers of the store. A stored number is an \<open>INTEGER\<close>, a signed 64-bit integer, or
  a \<open>REAL\<close>, a double. The model keeps the whole numbers: a \<open>REAL\<close> is the integer it is
  equal to. Fractions, infinities and \<open>NaN\<close> are outside it, and so is the exponent
  range of a double (magnitudes from \<open>2^1024\<close> on).
\<close>

datatype sql_num = SqlInteger int | SqlReal int

fun num_val :: "sql_num \<Rightarrow> int" where
  "num_val (SqlInteger v) = v"
| "num_val (SqlReal v) = v"

record user_row =
  u_id :: ident
  u_username :: string
  u_password_hash :: string
  u_updated_at :: instant
  u_last_login :: "instant option"
  u_is_admin :: bool
  u_is_active :: bool
  u_berrys :: "sql_num option"

datatype reward_type = berrys | crew_member

record island_row =
  i_id :: ident
  i_order_index :: int
  i_latitude :: int
  i_longitude :: int
  i_unlock_requirement_island_id :: "ident option"
  i_final_reward_type :: "reward_type option"
  i_final_reward_value :: "int option"
  i_final_reward_crew_member_id :: "ident option"
  i_is_active :: bool

record crew_row =
  c_id :: ident
  c_unlock_island_id :: "ident option"
  c_order_index :: int
  c_is_active :: bool

record quest_row =
  q_id :: ident
  q_island_id :: ident
  q_duration_hours :: nat
  q_reward_berrys :: int
  q_required_crew_count :: nat
  q_specific_crew_member_id :: "ident option"
  q_order_index :: int
  q_is_repeatable :: bool
  q_is_active :: bool

record user_island_row =
  ui_user_id :: ident
  ui_island_id :: ident
  ui_unlocked_at :: instant

record user_crew_row =
  uc_user_id :: ident
  uc_crew_member_id :: ident
  uc_unlocked_at :: instant

record active_quest_row =
  aq_user_id :: ident
  aq_quest_id :: ident
  aq_crew :: "ident list"
  aq_started_at :: instant

record history_row =
  h_user_id :: ident
  h_quest_id :: ident
  h_crew :: "ident list"
  h_started_at :: instant
  h_completed_at :: instant
  h_reward_berrys :: int

record db =
  users_tbl :: "user_row list"
  islands_tbl :: "island_row list"
  crew_members_tbl :: "crew_row list"
  quests_tbl :: "quest_row list"
  user_islands_tbl :: "user_island_row list"
  user_crew_members_tbl :: "user_crew_row list"
  active_quests_tbl :: "active_quest_row list"
  quest_history_tbl :: "history_row list"

definition empty_db :: db where
  "empty_db = \<lparr>users_tbl = [], islands_tbl = [], crew_members_tbl = [], quests_tbl = [],
     user_islands_tbl = [], user_crew_members_tbl = [], active_quests_tbl = [],
     quest_history_tbl = []\<rparr>"

subsection \<open>Asynchronous database code\<close>

text \<open>
  An \<open>async\<close> function over the store takes the store and returns the store it leaves,
  with either the value it resolves to or the error it throws. No statement of the
  source runs in a transaction: what was written before a \<open>throw\<close> stays written, so the
  store is returned on both sides.
\<close>

datatype error =
  SqlConstraint
  | CreationError
  | PreconditionViolation
  | OtherError string

type_synonym 'a io = "db \<Rightarrow> (error + 'a) \<times> db"

definition and_then :: "'a io \<Rightarrow> ('a \<Rightarrow> 'b io) \<Rightarrow> 'b io" where
  "and_then m f d = (case m d of (Inl e, d') \<Rightarrow> (Inl e, d') | (Inr x, d') \<Rightarrow> f x d')"

definition done_io :: "'a \<Rightarrow> 'a io" where
  "done_io x d = (Inr x, d)"

text \<open>\<open>for (const x of xs) { await f(x) }\<close>: the first throw ends the loop.\<close>

fun for_each :: "('a \<Rightarrow> unit io) \<Rightarrow> 'a list \<Rightarrow> unit io" where
  "for_each f [] d = (Inr (), d)"
| "for_each f (x # xs) d =
     (case f x d of (Inl e, d') \<Rightarrow> (Inl e, d') | (Inr _, d') \<Rightarrow> for_each f xs d')"

section \<open>\<open>models/User.ts\<close>\<close>

record UserCreate =
  new_username :: string
  new_password :: string

record UserUpdate =
  upd_username :: "string option"
  upd_password :: "string option"
  upd_is_admin :: "bool option"
  upd_is_active :: "bool option"

text \<open>\<open>SELECT * FROM users WHERE id = ? AND is_active = 1\<close>, first row or \<open>undefined\<close>.\<close>

definition findById :: "ident \<Rightarrow> db \<Rightarrow> user_row option" where
  "findById uid d = find (\<lambda>u. u_id u = uid \<and> u_is_active u) (users_tbl d)"

text \<open>
  \<open>update\<close> collects one \<open>column = ?\<close> assignment for every field of the update object
  that is not \<open>undefined\<close>, in the order username, password, is_admin, is_active. With
  no assignment it returns \<open>findById(id)\<close> at once; otherwise it adds \<open>updated_at\<close> and runs
  one \<open>UPDATE users SET ... WHERE id = ?\<close>. The bcrypt hash is a parameter.
\<close>

datatype assignment =
  SetUsername string
  | SetPasswordHash string
  | SetIsAdmin bool
  | SetIsActive bool
  | SetUpdatedAt instant

fun assign :: "user_row \<Rightarrow> assignment \<Rightarrow> user_row" where
  "assign u (SetUsername s) = u\<lparr>u_username := s\<rparr>"
| "assign u (SetPasswordHash s) = u\<lparr>u_password_hash := s\<rparr>"
| "assign u (SetIsAdmin b) = u\<lparr>u_is_admin := b\<rparr>"
| "assign u (SetIsActive b) = u\<lparr>u_is_active := b\<rparr>"
| "assign u (SetUpdatedAt t) = u\<lparr>u_updated_at := t\<rparr>"

definition update_users_where_id :: "assignment list \<Rightarrow> ident \<Rightarrow> db \<Rightarrow> db" where
  "update_users_where_id fs uid d =
     d\<lparr>users_tbl := map (\<lambda>u. if u_id u = uid then foldl assign u fs else u) (users_tbl d)\<rparr>"

definition update_fields :: "(string \<Rightarrow> string) \<Rightarrow> UserUpdate \<Rightarrow> assignment list" where
  "update_fields hash updates =
     (case upd_username updates of None \<Rightarrow> [] | Some s \<Rightarrow> [SetUsername s]) @
     (case upd_password updates of None \<Rightarrow> [] | Some p \<Rightarrow> [SetPasswordHash (hash p)]) @
     (case upd_is_admin updates of None \<Rightarrow> [] | Some b \<Rightarrow> [SetIsAdmin b]) @
     (case upd_is_active updates of None \<Rightarrow> [] | Some b \<Rightarrow> [SetIsActive b])"

definition update :: "(string \<Rightarrow> string) \<Rightarrow> instant \<Rightarrow> ident \<Rightarrow> UserUpdate \<Rightarrow> db
    \<Rightarrow> user_row option \<times> db" where
  "update hash now uid updates d =
     (let fs = update_fields hash updates in
      if length fs = 0 then (findById uid d, d)
      else
        (let d' = update_users_where_id (fs @ [SetUpdatedAt now]) uid d
         in (findById uid d', d')))"

text \<open>
  \<open>updateLastLogin\<close> and the soft \<open>delete\<close>: one \<open>UPDATE users ... WHERE id = ?\<close> each.
\<close>

definition updateLastLogin :: "instant \<Rightarrow> ident \<Rightarrow> db \<Rightarrow> db" where
  "updateLastLogin now uid d =
     d\<lparr>users_tbl := map (\<lambda>u. if u_id u = uid then u\<lparr>u_last_login := Some now\<rparr> else u)
                     (users_tbl d)\<rparr>"

definition delete :: "instant \<Rightarrow> ident \<Rightarrow> db \<Rightarrow> db" where
  "delete now uid d =
     d\<lparr>users_tbl :=
         map (\<lambda>u. if u_id u = uid then u\<lparr>u_is_active := False, u_updated_at := now\<rparr> else u)
           (users_tbl d)\<rparr>"

subsection \<open>Arithmetic of the store\<close>

text \<open>
  \<open>to_double\<close> rounds a whole number to the nearest double: 53 significant bits, ties to
  the even significand.
\<close>

definition int64 :: "int \<Rightarrow> bool" where
  "int64 v = (- 9223372036854775808 \<le> v \<and> v \<le> 9223372036854775807)"

fun bit_length :: "nat \<Rightarrow> nat" where
  "bit_length n = (if n = 0 then 0 else Suc (bit_length (n div 2)))"

declare bit_length.simps [simp del]

definition to_double :: "int \<Rightarrow> int" where
  "to_double x =
     (let n = bit_length (nat \<bar>x\<bar>) in
      if n \<le> 53 then x
      else
        (let u = 2 ^ (n - 53); q = \<bar>x\<bar> div u; r = \<bar>x\<bar> mod u;
             q' = (if u < 2 * r \<or> (2 * r = u \<and> odd q) then q + 1 else q)
         in sgn x * (q' * u)))"

fun real_val :: "sql_num \<Rightarrow> int" where
  "real_val (SqlInteger v) = to_double v"
| "real_val (SqlReal v) = v"

text \<open>
  \<open>X + Y\<close>: the sum of two \<open>INTEGER\<close>s is an \<open>INTEGER\<close> unless it leaves the 64-bit
  range; then, and whenever an operand is a \<open>REAL\<close>, both operands are taken as doubles
  and the sum is a double. \<open>MIN(X, Y)\<close> is the operand of the smaller value.
\<close>

fun sql_add :: "sql_num \<Rightarrow> sql_num \<Rightarrow> sql_num" where
  "sql_add (SqlInteger a) (SqlInteger b) =
     (if int64 (a + b) then SqlInteger (a + b)
      else SqlReal (to_double (to_double a + to_double b)))"
| "sql_add x y = SqlReal (to_double (real_val x + real_val y))"

definition MIN2 :: "sql_num \<Rightarrow> sql_num \<Rightarrow> sql_num" where
  "MIN2 x y = (if num_val y < num_val x then y else x)"

definition COALESCE :: "'a option \<Rightarrow> 'a \<Rightarrow> 'a" where
  "COALESCE v dflt = (case v of None \<Rightarrow> dflt | Some x \<Rightarrow> x)"

text \<open>
  Two things the sources do not fix are parameters: how \<open>Database.run\<close> binds a
  JavaScript number (as an \<open>INTEGER\<close> or as a \<open>REAL\<close>, which a driver decides from the
  number), and the affinity the schema declares for the \<open>berrys\<close> column, applied to
  every value stored in it. A number bound as an \<open>INTEGER\<close> must fit 64 bits.
\<close>

datatype storage_class = AS_INTEGER | AS_REAL

datatype affinity = INTEGER_AFFINITY | REAL_AFFINITY | NO_AFFINITY

record sql_config =
  bind_class :: "int \<Rightarrow> storage_class"
  berrys_affinity :: affinity

definition bind_number :: "sql_config \<Rightarrow> int \<Rightarrow> sql_num" where
  "bind_number cfg a =
     (case bind_class cfg a of
        AS_INTEGER \<Rightarrow> if int64 a then SqlInteger a else SqlReal (to_double a)
      | AS_REAL \<Rightarrow> SqlReal (to_double a))"

fun apply_affinity :: "affinity \<Rightarrow> sql_num \<Rightarrow> sql_num" where
  "apply_affinity INTEGER_AFFINITY (SqlReal v) =
     (if - 9223372036854775808 < v \<and> v < 9223372036854775807 then SqlInteger v else SqlReal v)"
| "apply_affinity REAL_AFFINITY (SqlInteger v) = SqlReal (to_double v)"
| "apply_affinity aff x = x"

text \<open>
  \<open>addBerrys\<close> runs \<open>UPDATE users SET berrys = MIN(COALESCE(berrys, 0) + ?, ?) WHERE id = ?\<close>
  with the amount, \<open>MAX_BERRYS\<close> and the user id. The amount is a JavaScript number; the
  model takes the whole numbers among them.
\<close>

definition MAX_BERRYS :: int where
  "MAX_BERRYS = 999999999"

definition addBerrys :: "sql_config \<Rightarrow> ident \<Rightarrow> int \<Rightarrow> db \<Rightarrow> db" where
  "addBerrys cfg userId amount d =
     d\<lparr>users_tbl :=
         map (\<lambda>u. if u_id u = userId
                   then u\<lparr>u_berrys := Some (apply_affinity (berrys_affinity cfg)
                          (MIN2 (sql_add (COALESCE (u_berrys u) (SqlInteger 0))
                                   (bind_number cfg amount))
                             (bind_number cfg MAX_BERRYS)))\<rparr>
                   else u)
           (users_tbl d)\<rparr>"

text \<open>The balance a user's row shows, \<open>NULL\<close> read as 0; \<open>None\<close> when there is no such row.\<close>

definition balance :: "db \<Rightarrow> ident \<Rightarrow> int option" where
  "balance d uid =
     (case find (\<lambda>u. u_id u = uid) (users_tbl d) of
        None \<Rightarrow> None
      | Some u \<Rightarrow> Some (num_val (COALESCE (u_berrys u) (SqlInteger 0))))"

text \<open>A run of grants to one user, one \<open>addBerrys\<close> call after the other.\<close>

definition grants :: "sql_config \<Rightarrow> ident \<Rightarrow> int list \<Rightarrow> db \<Rightarrow> db" where
  "grants cfg uid amounts d = foldl (\<lambda>s a. addBerrys cfg uid a s) d amounts"

section \<open>The progression ledger (\<open>models/WorldMap.ts\<close>)\<close>

text \<open>
  \<open>WorldMapModel\<close> is imported by both source files and is not among them. The functions
  translated from the sources take it as a parameter: a record of the two calls they
  make, each free to write to the store and to throw.
\<close>

record WorldMapModel =
  wm_unlockIsland :: "ident \<Rightarrow> ident \<Rightarrow> unit io"
  wm_unlockCrewMember :: "ident \<Rightarrow> ident \<Rightarrow> unit io"

text \<open>
  \<open>SELECT id FROM user_islands WHERE user_id = ? AND island_id = ?\<close> and its twin on
  \<open>user_crew_members\<close>, through \<open>Database.get\<close>: the first matching row or \<open>undefined\<close>.
\<close>

definition select_user_island :: "ident \<Rightarrow> ident \<Rightarrow> db \<Rightarrow> user_island_row option" where
  "select_user_island uid iid d =
     find (\<lambda>r. ui_user_id r = uid \<and> ui_island_id r = iid) (user_islands_tbl d)"

definition select_user_crew_member :: "ident \<Rightarrow> ident \<Rightarrow> db \<Rightarrow> user_crew_row option" where
  "select_user_crew_member uid cid d =
     find (\<lambda>r. uc_user_id r = uid \<and> uc_crew_member_id r = cid) (user_crew_members_tbl d)"

definition isIslandUnlocked :: "db \<Rightarrow> ident \<Rightarrow> ident \<Rightarrow> bool" where
  "isIslandUnlocked d uid iid = (select_user_island uid iid d \<noteq> None)"

definition isCrewUnlocked :: "db \<Rightarrow> ident \<Rightarrow> ident \<Rightarrow> bool" where
  "isCrewUnlocked d uid cid = (select_user_crew_member uid cid d \<noteq> None)"

text \<open>
  Modelled from the spec: \<open>WorldMapModel.unlockIsland\<close> and \<open>WorldMapModel.unlockCrewMember\<close>
  (section 4.2 of the specification; \<open>models/WorldMap.ts\<close> is missing). An unlock record
  is a (user, entity) pair with the instant of the unlock; unlocking what is already
  unlocked is a no-op, never an error and never a second row.
\<close>

definition unlockIsland :: "instant \<Rightarrow> ident \<Rightarrow> ident \<Rightarrow> unit io" where
  "unlockIsland now uid iid d =
     (if isIslandUnlocked d uid iid then (Inr (), d)
      else (Inr (), d\<lparr>user_islands_tbl := user_islands_tbl d @
              [\<lparr>ui_user_id = uid, ui_island_id = iid, ui_unlocked_at = now\<rparr>]\<rparr>))"

definition unlockCrewMember :: "instant \<Rightarrow> ident \<Rightarrow> ident \<Rightarrow> unit io" where
  "unlockCrewMember now uid cid d =
     (if isCrewUnlocked d uid cid then (Inr (), d)
      else (Inr (), d\<lparr>user_crew_members_tbl := user_crew_members_tbl d @
              [\<lparr>uc_user_id = uid, uc_crew_member_id = cid, uc_unlocked_at = now\<rparr>]\<rparr>))"

definition ledger :: "instant \<Rightarrow> WorldMapModel" where
  "ledger now = \<lparr>wm_unlockIsland = unlockIsland now, wm_unlockCrewMember = unlockCrewMember now\<rparr>"

text \<open>A ledger whose calls always throw, writing nothing.\<close>

definition broken_ledger :: WorldMapModel where
  "broken_ledger = \<lparr>wm_unlockIsland = (\<lambda>uid iid d. (Inl (OtherError ''unlockIsland''), d)),
     wm_unlockCrewMember = (\<lambda>uid cid d. (Inl (OtherError ''unlockCrewMember''), d))\<rparr>"

section \<open>\<open>UserModel.create\<close>\<close>

text \<open>
  \<open>INSERT INTO users (id, username, password_hash) VALUES (?, ?, ?)\<close>. The schema is not
  among the sources: the other columns take the schema's defaults, a parameter here (the
  row \<open>dflt\<close>), and \<open>id\<close> is taken to be the table's key, so that a second row with the
  same id is refused.
\<close>

definition inserted_user :: "user_row \<Rightarrow> ident \<Rightarrow> string \<Rightarrow> string \<Rightarrow> user_row" where
  "inserted_user dflt uid name pwhash =
     dflt\<lparr>u_id := uid, u_username := name, u_password_hash := pwhash\<rparr>"

definition insert_user :: "user_row \<Rightarrow> ident \<Rightarrow> string \<Rightarrow> string \<Rightarrow> unit io" where
  "insert_user dflt uid name pwhash d =
     (if uid \<in> set (map u_id (users_tbl d)) then (Inl SqlConstraint, d)
      else (Inr (), d\<lparr>users_tbl := users_tbl d @ [inserted_user dflt uid name pwhash]\<rparr>))"

text \<open>
  What \<open>create\<close> prints with \<open>console.error\<close> in its \<open>catch\<close> block. The function
  resolves to the user; the model returns the printed lines beside it.
\<close>

datatype log_line = InitialisationFailed error

definition create :: "WorldMapModel \<Rightarrow> (string \<Rightarrow> string) \<Rightarrow> user_row \<Rightarrow> ident \<Rightarrow> UserCreate
    \<Rightarrow> (user_row \<times> log_line list) io" where
  "create wm hash dflt new_id userData d =
     (case insert_user dflt new_id (new_username userData) (hash (new_password userData)) d of
        (Inl e, d1) \<Rightarrow> (Inl e, d1)
      | (Inr _, d1) \<Rightarrow>
          (case findById new_id d1 of
             None \<Rightarrow> (Inl CreationError, d1)
           | Some user \<Rightarrow>
               (case and_then (wm_unlockIsland wm new_id ''island_windmill_village'')
                       (\<lambda>_. wm_unlockCrewMember wm new_id ''crew_luffy'') d1 of
                  (Inl e, d2) \<Rightarrow> (Inr (user, [InitialisationFailed e]), d2)
                | (Inr _, d2) \<Rightarrow> (Inr (user, []), d2))))"

section \<open>\<open>scripts/seed-world-map-data.ts\<close>\<close>

subsection \<open>\<open>initializeExistingUsers\<close>\<close>

text \<open>
  The body of the loop over the users, which the specification calls \<open>reconcileUser\<close>.
  It resolves to the flag \<open>userNeedsInit\<close>.
\<close>

definition reconcileUser :: "WorldMapModel \<Rightarrow> ident \<Rightarrow> bool io" where
  "reconcileUser wm uid =
     and_then
       (\<lambda>d. if select_user_island uid ''island_windmill_village'' d = None
            then and_then (wm_unlockIsland wm uid ''island_windmill_village'')
                   (\<lambda>_. done_io True) d
            else done_io False d)
       (\<lambda>userNeedsInit d.
          if select_user_crew_member uid ''crew_luffy'' d = None
          then and_then (wm_unlockCrewMember wm uid ''crew_luffy'') (\<lambda>_. done_io True) d
          else done_io userNeedsInit d)"

fun initializeExistingUsers_loop :: "WorldMapModel \<Rightarrow> ident list \<Rightarrow> nat \<Rightarrow> nat io" where
  "initializeExistingUsers_loop wm [] usersInitialized d = (Inr usersInitialized, d)"
| "initializeExistingUsers_loop wm (uid # rest) usersInitialized d =
     (case reconcileUser wm uid d of
        (Inl e, d') \<Rightarrow> (Inl e, d')
      | (Inr userNeedsInit, d') \<Rightarrow>
          initializeExistingUsers_loop wm rest
            (if userNeedsInit then usersInitialized + 1 else usersInitialized) d')"

text \<open>\<open>SELECT id FROM users WHERE is_active = 1\<close>.\<close>

definition select_active_user_ids :: "db \<Rightarrow> ident list" where
  "select_active_user_ids d = map u_id (filter u_is_active (users_tbl d))"

text \<open>
  \<open>initializeExistingUsers\<close> resolves to nothing and prints \<open>usersInitialized\<close>; the model
  resolves to that count. Its \<open>catch\<close> block prints and rethrows.
\<close>

definition initializeExistingUsers :: "WorldMapModel \<Rightarrow> nat io" where
  "initializeExistingUsers wm d =
     initializeExistingUsers_loop wm (select_active_user_ids d) 0 d"

text \<open>The baseline of an account: the root island and the root crew member.\<close>

definition baseline :: "db \<Rightarrow> ident \<Rightarrow> bool" where
  "baseline d uid = (isIslandUnlocked d uid ''island_windmill_village''
                     \<and> isCrewUnlocked d uid ''crew_luffy'')"

subsection \<open>\<open>updateIslandCoordinates\<close>\<close>

definition islandCoordinates :: "(ident \<times> int \<times> int) list" where
  "islandCoordinates = [
     (''island_windmill_village'', 12, 8),
     (''island_shells_town'', 18, 15),
     (''island_orange_town'', 25, 12),
     (''island_syrup_village'', 32, 18),
     (''island_baratie'', 38, 25),
     (''island_arlong_park'', 45, 32),
     (''island_loguetown'', 48, 42),
     (''island_drum'', 42, 52),
     (''island_alabasta'', 35, 58),
     (''island_water_seven'', 28, 65),
     (''island_thriller_bark'', 22, 75),
     (''island_sabaody'', 15, 85)]"

definition update_island_coordinates :: "ident \<times> int \<times> int \<Rightarrow> db \<Rightarrow> db" where
  "update_island_coordinates c d =
     (case c of (iid, lat, lon) \<Rightarrow>
        d\<lparr>islands_tbl :=
            map (\<lambda>r. if i_id r = iid then r\<lparr>i_latitude := lat, i_longitude := lon\<rparr> else r)
              (islands_tbl d)\<rparr>)"

definition updateIslandCoordinates :: "db \<Rightarrow> db" where
  "updateIslandCoordinates d = foldl (\<lambda>s c. update_island_coordinates c s) d islandCoordinates"

subsection \<open>\<open>seedWorldMapData\<close>\<close>

record CrewMemberData =
  cm_id :: ident
  cm_unlock_island_id :: "ident option"
  cm_order_index :: int

record IslandData =
  is_id :: ident
  is_order_index :: int
  is_latitude :: int
  is_longitude :: int
  is_unlock_requirement_island_id :: "ident option"
  is_final_reward_type :: "reward_type option"
  is_final_reward_value :: "int option"
  is_final_reward_crew_member_id :: "ident option"

record QuestData =
  qd_id :: ident
  qd_island_id :: ident
  qd_duration_hours :: nat
  qd_reward_berrys :: int
  qd_required_crew_count :: nat
  qd_specific_crew_member_id :: "ident option"
  qd_order_index :: int
  qd_is_repeatable :: bool

definition crewMembers :: "CrewMemberData list" where
  "crewMembers = [
     \<lparr>cm_id = ''crew_luffy'', cm_unlock_island_id = None, cm_order_index = 1\<rparr>,
     \<lparr>cm_id = ''crew_zoro'', cm_unlock_island_id = Some ''island_shells_town'', cm_order_index = 2\<rparr>,
     \<lparr>cm_id = ''crew_nami'', cm_unlock_island_id = Some ''island_orange_town'', cm_order_index = 3\<rparr>,
     \<lparr>cm_id = ''crew_usopp'', cm_unlock_island_id = Some ''island_syrup_village'', cm_order_index = 4\<rparr>,
     \<lparr>cm_id = ''crew_sanji'', cm_unlock_island_id = Some ''island_baratie'', cm_order_index = 5\<rparr>,
     \<lparr>cm_id = ''crew_chopper'', cm_unlock_island_id = Some ''island_drum'', cm_order_index = 6\<rparr>,
     \<lparr>cm_id = ''crew_robin'', cm_unlock_island_id = Some ''island_alabasta'', cm_order_index = 7\<rparr>,
     \<lparr>cm_id = ''crew_franky'', cm_unlock_island_id = Some ''island_water_seven'', cm_order_index = 8\<rparr>,
     \<lparr>cm_id = ''crew_brook'', cm_unlock_island_id = Some ''island_thriller_bark'', cm_order_index = 9\<rparr>]"

definition islands :: "IslandData list" where
  "islands = [
     \<lparr>is_id = ''island_windmill_village'', is_order_index = 1, is_latitude = 12, is_longitude = 8,
      is_unlock_requirement_island_id = None,
      is_final_reward_type = Some berrys, is_final_reward_value = Some 500,
      is_final_reward_crew_member_id = None\<rparr>,
     \<lparr>is_id = ''island_shells_town'', is_order_index = 2, is_latitude = 18, is_longitude = 15,
      is_unlock_requirement_island_id = Some ''island_windmill_village'',
      is_final_reward_type = Some crew_member, is_final_reward_value = None,
      is_final_reward_crew_member_id = Some ''crew_zoro''\<rparr>,
     \<lparr>is_id = ''island_orange_town'', is_order_index = 3, is_latitude = 25, is_longitude = 12,
      is_unlock_requirement_island_id = Some ''island_shells_town'',
      is_final_reward_type = Some crew_member, is_final_reward_value = None,
      is_final_reward_crew_member_id = Some ''crew_nami''\<rparr>,
     \<lparr>is_id = ''island_syrup_village'', is_order_index = 4, is_latitude = 32, is_longitude = 18,
      is_unlock_requirement_island_id = Some ''island_orange_town'',
      is_final_reward_type = Some crew_member, is_final_reward_value = None,
      is_final_reward_crew_member_id = Some ''crew_usopp''\<rparr>,
     \<lparr>is_id = ''island_baratie'', is_order_index = 5, is_latitude = 38, is_longitude = 25,
      is_unlock_requirement_island_id = Some ''island_syrup_village'',
      is_final_reward_type = Some crew_member, is_final_reward_value = None,
      is_final_reward_crew_member_id = Some ''crew_sanji''\<rparr>,
     \<lparr>is_id = ''island_arlong_park'', is_order_index = 6, is_latitude = 45, is_longitude = 32,
      is_unlock_requirement_island_id = Some ''island_baratie'',
      is_final_reward_type = Some berrys, is_final_reward_value = Some 2000,
      is_final_reward_crew_member_id = None\<rparr>,
     \<lparr>is_id = ''island_loguetown'', is_order_index = 7, is_latitude = 48, is_longitude = 42,
      is_unlock_requirement_island_id = Some ''island_arlong_park'',
      is_final_reward_type = Some berrys, is_final_reward_value = Some 3000,
      is_final_reward_crew_member_id = None\<rparr>,
     \<lparr>is_id = ''island_drum'', is_order_index = 8, is_latitude = 42, is_longitude = 52,
      is_unlock_requirement_island_id = Some ''island_loguetown'',
      is_final_reward_type = Some crew_member, is_final_reward_value = None,
      is_final_reward_crew_member_id = Some ''crew_chopper''\<rparr>,
     \<lparr>is_id = ''island_alabasta'', is_order_index = 9, is_latitude = 35, is_longitude = 58,
      is_unlock_requirement_island_id = Some ''island_drum'',
      is_final_reward_type = Some crew_member, is_final_reward_value = None,
      is_final_reward_crew_member_id = Some ''crew_robin''\<rparr>,
     \<lparr>is_id = ''island_water_seven'', is_order_index = 10, is_latitude = 28, is_longitude = 65,
      is_unlock_requirement_island_id = Some ''island_alabasta'',
      is_final_reward_type = Some crew_member, is_final_reward_value = None,
      is_final_reward_crew_member_id = Some ''crew_franky''\<rparr>,
     \<lparr>is_id = ''island_thriller_bark'', is_order_index = 11, is_latitude = 22, is_longitude = 75,
      is_unlock_requirement_island_id = Some ''island_water_seven'',
      is_final_reward_type = Some crew_member, is_final_reward_value = None,
      is_final_reward_crew_member_id = Some ''crew_brook''\<rparr>,
     \<lparr>is_id = ''island_sabaody'', is_order_index = 12, is_latitude = 15, is_longitude = 85,
      is_unlock_requirement_island_id = Some ''island_thriller_bark'',
      is_final_reward_type = Some berrys, is_final_reward_value = Some 10000,
      is_final_reward_crew_member_id = None\<rparr>]"

definition quests :: "QuestData list" where
  "quests = [
     \<lparr>qd_id = ''quest_fuchsia_1'', qd_island_id = ''island_windmill_village'', qd_duration_hours = 1,
      qd_reward_berrys = 50, qd_required_crew_count = 1,
      qd_specific_crew_member_id = Some ''crew_luffy'', qd_order_index = 1, qd_is_repeatable = True\<rparr>,
     \<lparr>qd_id = ''quest_fuchsia_2'', qd_island_id = ''island_windmill_village'', qd_duration_hours = 2,
      qd_reward_berrys = 75, qd_required_crew_count = 1,
      qd_specific_crew_member_id = None, qd_order_index = 2, qd_is_repeatable = True\<rparr>,
     \<lparr>qd_id = ''quest_fuchsia_3'', qd_island_id = ''island_windmill_village'', qd_duration_hours = 3,
      qd_reward_berrys = 100, qd_required_crew_count = 1,
      qd_specific_crew_member_id = None, qd_order_index = 3, qd_is_repeatable = True\<rparr>,
     \<lparr>qd_id = ''quest_shells_1'', qd_island_id = ''island_shells_town'', qd_duration_hours = 2,
      qd_reward_berrys = 100, qd_required_crew_count = 1,
      qd_specific_crew_member_id = Some ''crew_luffy'', qd_order_index = 1, qd_is_repeatable = True\<rparr>,
     \<lparr>qd_id = ''quest_shells_2'', qd_island_id = ''island_shells_town'', qd_duration_hours = 3,
      qd_reward_berrys = 150, qd_required_crew_count = 2,
      qd_specific_crew_member_id = None, qd_order_index = 2, qd_is_repeatable = True\<rparr>,
     \<lparr>qd_id = ''quest_shells_3'', qd_island_id = ''island_shells_town'', qd_duration_hours = 4,
      qd_reward_berrys = 200, qd_required_crew_count = 1,
      qd_specific_crew_member_id = None, qd_order_index = 3, qd_is_repeatable = True\<rparr>,
     \<lparr>qd_id = ''quest_orange_1'', qd_island_id = ''island_orange_town'', qd_duration_hours = 2,
      qd_reward_berrys = 125, qd_required_crew_count = 1,
      qd_specific_crew_member_id = None, qd_order_index = 1, qd_is_repeatable = True\<rparr>,
     \<lparr>qd_id = ''quest_orange_2'', qd_island_id = ''island_orange_town'', qd_duration_hours = 3,
      qd_reward_berrys = 175, qd_required_crew_count = 2,
      qd_specific_crew_member_id = Some ''crew_luffy'', qd_order_index = 2, qd_is_repeatable = True\<rparr>,
     \<lparr>qd_id = ''quest_orange_3'', qd_island_id = ''island_orange_town'', qd_duration_hours = 2,
      qd_reward_berrys = 150, qd_required_crew_count = 1,
      qd_specific_crew_member_id = Some ''crew_nami'', qd_order_index = 3, qd_is_repeatable = True\<rparr>,
     \<lparr>qd_id = ''quest_syrup_1'', qd_island_id = ''island_syrup_village'', qd_duration_hours = 2,
      qd_reward_berrys = 150, qd_required_crew_count = 1,
      qd_specific_crew_member_id = Some ''crew_usopp'', qd_order_index = 1, qd_is_repeatable = True\<rparr>,
     \<lparr>qd_id = ''quest_syrup_2'', qd_island_id = ''island_syrup_village'', qd_duration_hours = 4,
      qd_reward_berrys = 250, qd_required_crew_count = 3,
      qd_specific_crew_member_id = None, qd_order_index = 2, qd_is_repeatable = True\<rparr>,
     \<lparr>qd_id = ''quest_syrup_3'', qd_island_id = ''island_syrup_village'', qd_duration_hours = 3,
      qd_reward_berrys = 200, qd_required_crew_count = 1,
      qd_specific_crew_member_id = None, qd_order_index = 3, qd_is_repeatable = True\<rparr>,
     \<lparr>qd_id = ''quest_baratie_1'', qd_island_id = ''island_baratie'', qd_duration_hours = 2,
      qd_reward_berrys = 175, qd_required_crew_count = 1,
      qd_specific_crew_member_id = Some ''crew_sanji'', qd_order_index = 1, qd_is_repeatable = True\<rparr>,
     \<lparr>qd_id = ''quest_baratie_2'', qd_island_id = ''island_baratie'', qd_duration_hours = 5,
      qd_reward_berrys = 350, qd_required_crew_count = 3,
      qd_specific_crew_member_id = None, qd_order_index = 2, qd_is_repeatable = True\<rparr>,
     \<lparr>qd_id = ''quest_baratie_3'', qd_island_id = ''island_baratie'', qd_duration_hours = 4,
      qd_reward_berrys = 300, qd_required_crew_count = 1,
      qd_specific_crew_member_id = Some ''crew_zoro'', qd_order_index = 3, qd_is_repeatable = True\<rparr>,
     \<lparr>qd_id = ''quest_arlong_1'', qd_island_id = ''island_arlong_park'', qd_duration_hours = 3,
      qd_reward_berrys = 250, qd_required_crew_count = 2,
      qd_specific_crew_member_id = None, qd_order_index = 1, qd_is_repeatable = True\<rparr>,
     \<lparr>qd_id = ''quest_arlong_2'', qd_island_id = ''island_arlong_park'', qd_duration_hours = 5,
      qd_reward_berrys = 400, qd_required_crew_count = 4,
      qd_specific_crew_member_id = Some ''crew_luffy'', qd_order_index = 2, qd_is_repeatable = True\<rparr>,
     \<lparr>qd_id = ''quest_arlong_3'', qd_island_id = ''island_arlong_park'', qd_duration_hours = 4,
      qd_reward_berrys = 350, qd_required_crew_count = 1,
      qd_specific_crew_member_id = Some ''crew_luffy'', qd_order_index = 3, qd_is_repeatable = True\<rparr>,
     \<lparr>qd_id = ''quest_logue_1'', qd_island_id = ''island_loguetown'', qd_duration_hours = 1,
      qd_reward_berrys = 200, qd_required_crew_count = 1,
      qd_specific_crew_member_id = None, qd_order_index = 1, qd_is_repeatable = True\<rparr>,
     \<lparr>qd_id = ''quest_logue_2'', qd_island_id = ''island_loguetown'', qd_duration_hours = 3,
      qd_reward_berrys = 300, qd_required_crew_count = 2,
      qd_specific_crew_member_id = None, qd_order_index = 2, qd_is_repeatable = True\<rparr>,
     \<lparr>qd_id = ''quest_logue_3'', qd_island_id = ''island_loguetown'', qd_duration_hours = 4,
      qd_reward_berrys = 400, qd_required_crew_count = 3,
      qd_specific_crew_member_id = None, qd_order_index = 3, qd_is_repeatable = True\<rparr>,
     \<lparr>qd_id = ''quest_drum_1'', qd_island_id = ''island_drum'', qd_duration_hours = 4,
      qd_reward_berrys = 350, qd_required_crew_count = 2,
      qd_specific_crew_member_id = None, qd_order_index = 1, qd_is_repeatable = True\<rparr>,
     \<lparr>qd_id = ''quest_drum_2'', qd_island_id = ''island_drum'', qd_duration_hours = 5,
      qd_reward_berrys = 500, qd_required_crew_count = 3,
      qd_specific_crew_member_id = None, qd_order_index = 2, qd_is_repeatable = True\<rparr>,
     \<lparr>qd_id = ''quest_drum_3'', qd_island_id = ''island_drum'', qd_duration_hours = 3,
      qd_reward_berrys = 400, qd_required_crew_count = 1,
      qd_specific_crew_member_id = None, qd_order_index = 3, qd_is_repeatable = True\<rparr>,
     \<lparr>qd_id = ''quest_alabasta_1'', qd_island_id = ''island_alabasta'', qd_duration_hours = 5,
      qd_reward_berrys = 500, qd_required_crew_count = 3,
      qd_specific_crew_member_id = None, qd_order_index = 1, qd_is_repeatable = True\<rparr>,
     \<lparr>qd_id = ''quest_alabasta_2'', qd_island_id = ''island_alabasta'', qd_duration_hours = 6,
      qd_reward_berrys = 600, qd_required_crew_count = 4,
      qd_specific_crew_member_id = None, qd_order_index = 2, qd_is_repeatable = True\<rparr>,
     \<lparr>qd_id = ''quest_alabasta_3'', qd_island_id = ''island_alabasta'', qd_duration_hours = 6,
      qd_reward_berrys = 700, qd_required_crew_count = 1,
      qd_specific_crew_member_id = Some ''crew_luffy'', qd_order_index = 3, qd_is_repeatable = True\<rparr>,
     \<lparr>qd_id = ''quest_water7_1'', qd_island_id = ''island_water_seven'', qd_duration_hours = 3,
      qd_reward_berrys = 450, qd_required_crew_count = 2,
      qd_specific_crew_member_id = None, qd_order_index = 1, qd_is_repeatable = True\<rparr>,
     \<lparr>qd_id = ''quest_water7_2'', qd_island_id = ''island_water_seven'', qd_duration_hours = 8,
      qd_reward_berrys = 1000, qd_required_crew_count = 5,
      qd_specific_crew_member_id = None, qd_order_index = 2, qd_is_repeatable = True\<rparr>,
     \<lparr>qd_id = ''quest_water7_3'', qd_island_id = ''island_water_seven'', qd_duration_hours = 6,
      qd_reward_berrys = 800, qd_required_crew_count = 2,
      qd_specific_crew_member_id = None, qd_order_index = 3, qd_is_repeatable = True\<rparr>,
     \<lparr>qd_id = ''quest_thriller_1'', qd_island_id = ''island_thriller_bark'', qd_duration_hours = 4,
      qd_reward_berrys = 600, qd_required_crew_count = 3,
      qd_specific_crew_member_id = None, qd_order_index = 1, qd_is_repeatable = True\<rparr>,
     \<lparr>qd_id = ''quest_thriller_2'', qd_island_id = ''island_thriller_bark'', qd_duration_hours = 6,
      qd_reward_berrys = 800, qd_required_crew_count = 5,
      qd_specific_crew_member_id = None, qd_order_index = 2, qd_is_repeatable = True\<rparr>,
     \<lparr>qd_id = ''quest_thriller_3'', qd_island_id = ''island_thriller_bark'', qd_duration_hours = 8,
      qd_reward_berrys = 1200, qd_required_crew_count = 6,
      qd_specific_crew_member_id = None, qd_order_index = 3, qd_is_repeatable = True\<rparr>,
     \<lparr>qd_id = ''quest_sabaody_1'', qd_island_id = ''island_sabaody'', qd_duration_hours = 3,
      qd_reward_berrys = 700, qd_required_crew_count = 2,
      qd_specific_crew_member_id = None, qd_order_index = 1, qd_is_repeatable = True\<rparr>,
     \<lparr>qd_id = ''quest_sabaody_2'', qd_island_id = ''island_sabaody'', qd_duration_hours = 6,
      qd_reward_berrys = 1000, qd_required_crew_count = 5,
      qd_specific_crew_member_id = None, qd_order_index = 2, qd_is_repeatable = True\<rparr>,
     \<lparr>qd_id = ''quest_sabaody_3'', qd_island_id = ''island_sabaody'', qd_duration_hours = 10,
      qd_reward_berrys = 1500, qd_required_crew_count = 6,
      qd_specific_crew_member_id = None, qd_order_index = 3, qd_is_repeatable = True\<rparr>]"

text \<open>The seven \<open>DELETE FROM\<close> statements that run when the \<open>islands\<close> table has a row.\<close>

definition delete_world_map :: "db \<Rightarrow> db" where
  "delete_world_map d =
     d\<lparr>quest_history_tbl := [], active_quests_tbl := [], user_islands_tbl := [],
       user_crew_members_tbl := [], quests_tbl := [], crew_members_tbl := [],
       islands_tbl := []\<rparr>"

text \<open>
  The \<open>INSERT\<close> and \<open>UPDATE\<close> statements of the seed. As for \<open>users\<close>, \<open>id\<close> is taken to
  be the key of each catalogue table: an \<open>INSERT\<close> of an id the table holds throws.
\<close>

definition crew_row_of :: "CrewMemberData \<Rightarrow> ident option \<Rightarrow> crew_row" where
  "crew_row_of member unlock_island =
     \<lparr>c_id = cm_id member, c_unlock_island_id = unlock_island,
      c_order_index = cm_order_index member, c_is_active = True\<rparr>"

definition insert_crew_member :: "CrewMemberData \<Rightarrow> unit io" where
  "insert_crew_member member d =
     (if cm_id member \<in> set (map c_id (crew_members_tbl d)) then (Inl SqlConstraint, d)
      else (Inr (), d\<lparr>crew_members_tbl := crew_members_tbl d @ [crew_row_of member None]\<rparr>))"

definition island_row_of :: "IslandData \<Rightarrow> island_row" where
  "island_row_of island =
     \<lparr>i_id = is_id island, i_order_index = is_order_index island,
      i_latitude = is_latitude island, i_longitude = is_longitude island,
      i_unlock_requirement_island_id = is_unlock_requirement_island_id island,
      i_final_reward_type = is_final_reward_type island,
      i_final_reward_value = is_final_reward_value island,
      i_final_reward_crew_member_id = is_final_reward_crew_member_id island,
      i_is_active = True\<rparr>"

definition insert_island :: "IslandData \<Rightarrow> unit io" where
  "insert_island island d =
     (if is_id island \<in> set (map i_id (islands_tbl d)) then (Inl SqlConstraint, d)
      else (Inr (), d\<lparr>islands_tbl := islands_tbl d @ [island_row_of island]\<rparr>))"

text \<open>
  \<open>if (member.unlock_island_id)\<close> is a truthiness test: \<open>null\<close> and the empty string
  both skip the \<open>UPDATE\<close>.
\<close>

definition update_crew_member_unlock :: "CrewMemberData \<Rightarrow> unit io" where
  "update_crew_member_unlock member d =
     (case cm_unlock_island_id member of
        None \<Rightarrow> (Inr (), d)
      | Some iid \<Rightarrow>
          if iid = [] then (Inr (), d)
          else (Inr (), d\<lparr>crew_members_tbl :=
                  map (\<lambda>r. if c_id r = cm_id member then r\<lparr>c_unlock_island_id := Some iid\<rparr>
                            else r)
                    (crew_members_tbl d)\<rparr>))"

text \<open>What the \<open>UPDATE\<close> of step 2/2 for one seed entry does to one row.\<close>

definition set_unlock_island :: "CrewMemberData \<Rightarrow> crew_row \<Rightarrow> crew_row" where
  "set_unlock_island member r =
     (case cm_unlock_island_id member of
        None \<Rightarrow> r
      | Some iid \<Rightarrow>
          if iid \<noteq> [] \<and> c_id r = cm_id member then r\<lparr>c_unlock_island_id := Some iid\<rparr> else r)"

definition quest_row_of :: "QuestData \<Rightarrow> quest_row" where
  "quest_row_of quest =
     \<lparr>q_id = qd_id quest, q_island_id = qd_island_id quest,
      q_duration_hours = qd_duration_hours quest,
      q_reward_berrys = qd_reward_berrys quest,
      q_required_crew_count = qd_required_crew_count quest,
      q_specific_crew_member_id = qd_specific_crew_member_id quest,
      q_order_index = qd_order_index quest,
      q_is_repeatable = qd_is_repeatable quest, q_is_active = True\<rparr>"

definition insert_quest :: "QuestData \<Rightarrow> unit io" where
  "insert_quest quest d =
     (if qd_id quest \<in> set (map q_id (quests_tbl d)) then (Inl SqlConstraint, d)
      else (Inr (), d\<lparr>quests_tbl := quests_tbl d @ [quest_row_of quest]\<rparr>))"

text \<open>The body of the seed's loop over the users: the same two checks, with no flag.\<close>

definition seed_user :: "WorldMapModel \<Rightarrow> ident \<Rightarrow> unit io" where
  "seed_user wm uid =
     and_then
       (\<lambda>d. if select_user_island uid ''island_windmill_village'' d = None
            then wm_unlockIsland wm uid ''island_windmill_village'' d
            else done_io () d)
       (\<lambda>_ d. if select_user_crew_member uid ''crew_luffy'' d = None
            then wm_unlockCrewMember wm uid ''crew_luffy'' d
            else done_io () d)"

text \<open>
  The steps of \<open>seedWorldMapData\<close> in the order of the source: the guarded deletion, the
  crew members without their island (step 1/2), the islands, the crew members' islands
  (step 2/2), the quests, the users.
\<close>

definition seed_delete_existing :: "db \<Rightarrow> db" where
  "seed_delete_existing d = (if length (islands_tbl d) > 0 then delete_world_map d else d)"

definition seed_crew_step1 :: "unit io" where
  "seed_crew_step1 = for_each insert_crew_member crewMembers"

definition seed_islands :: "unit io" where
  "seed_islands = for_each insert_island islands"

definition seed_crew_step2 :: "unit io" where
  "seed_crew_step2 = for_each update_crew_member_unlock crewMembers"

definition seed_quests :: "unit io" where
  "seed_quests = for_each insert_quest quests"

definition seed_users :: "WorldMapModel \<Rightarrow> unit io" where
  "seed_users wm d = for_each (seed_user wm) (select_active_user_ids d) d"

definition seedWorldMapData :: "WorldMapModel \<Rightarrow> unit io" where
  "seedWorldMapData wm d =
     and_then seed_crew_step1 (\<lambda>_.
     and_then seed_islands (\<lambda>_.
     and_then seed_crew_step2 (\<lambda>_.
     and_then seed_quests (\<lambda>_.
     seed_users wm)))) (seed_delete_existing d)"

section \<open>\<open>initializeApp\<close>: the world map at start-up\<close>

text \<open>
  The world-map block of \<open>initializeApp\<close> in \<open>app.ts\<close>: it counts the islands, seeds the
  catalogue when there is none, and otherwise refreshes the coordinates and initialises
  the existing users. Its \<open>catch\<close> block prints a warning and goes on, so the block
  leaves a store whether or not a step threw.
\<close>

definition initializeWorldMap :: "WorldMapModel \<Rightarrow> db \<Rightarrow> db" where
  "initializeWorldMap wm d =
     (if length (islands_tbl d) = 0 then snd (seedWorldMapData wm d)
      else snd (initializeExistingUsers wm (updateIslandCoordinates d)))"

section \<open>The quest scheduler\<close>

text \<open>
  Modelled from the spec: the Start and Collect transitions of section 4.3 of the
  specification (the scheduler's code is in the missing \<open>models/WorldMap.ts\<close>). Start
  checks the preconditions (a) to (e) against the user's current state and writes
  nothing when one fails; a template id the catalogue does not hold is rejected in the
  same way. A companion is busy when a stored active instance of the user lists it.
\<close>

definition companion_busy :: "db \<Rightarrow> ident \<Rightarrow> ident \<Rightarrow> bool" where
  "companion_busy d uid cid =
     list_ex (\<lambda>a. aq_user_id a = uid \<and> cid \<in> set (aq_crew a)) (active_quests_tbl d)"

definition has_history :: "db \<Rightarrow> ident \<Rightarrow> ident \<Rightarrow> bool" where
  "has_history d uid qid =
     list_ex (\<lambda>h. h_user_id h = uid \<and> h_quest_id h = qid) (quest_history_tbl d)"

definition start_preconditions :: "db \<Rightarrow> ident \<Rightarrow> quest_row \<Rightarrow> ident list \<Rightarrow> bool" where
  "start_preconditions d uid q companions =
     (isIslandUnlocked d uid (q_island_id q)
      \<and> length (remdups companions) = q_required_crew_count q
      \<and> (case q_specific_crew_member_id q of None \<Rightarrow> True | Some c \<Rightarrow> c \<in> set companions)
      \<and> list_all (isCrewUnlocked d uid) companions
      \<and> list_all (\<lambda>c. \<not> companion_busy d uid c) companions
      \<and> (q_is_repeatable q \<or> \<not> has_history d uid (q_id q)))"

definition startQuest :: "instant \<Rightarrow> ident \<Rightarrow> ident \<Rightarrow> ident list \<Rightarrow> unit io" where
  "startQuest now uid qid companions d =
     (case find (\<lambda>q. q_id q = qid) (quests_tbl d) of
        None \<Rightarrow> (Inl PreconditionViolation, d)
      | Some q \<Rightarrow>
          if start_preconditions d uid q companions
          then (Inr (), d\<lparr>active_quests_tbl := active_quests_tbl d @
                  [\<lparr>aq_user_id = uid, aq_quest_id = qid, aq_crew = remdups companions,
                    aq_started_at = now\<rparr>]\<rparr>)
          else (Inl PreconditionViolation, d))"

text \<open>
  Modelled from the spec: Collect. An instance is due once \<open>duration_hours\<close> have passed
  since its start (instants count milliseconds). Collect grants the template's currency
  through the ledger, asks the supplied predicate \<open>isIslandCleared\<close>, unlocks the next
  island of the chain with the crew member its reward names when the island is cleared
  and the next one still locked, appends the history record and retires the instance.
\<close>

definition hour :: nat where
  "hour = 3600000"

definition eligibleCrewOnIslandUnlock :: "island_row \<Rightarrow> ident option" where
  "eligibleCrewOnIslandUnlock island =
     (if i_final_reward_type island = Some crew_member
      then i_final_reward_crew_member_id island else None)"

definition unlock_next_island :: "instant \<Rightarrow> ident \<Rightarrow> ident \<Rightarrow> db \<Rightarrow> db" where
  "unlock_next_island now uid iid d =
     (case find (\<lambda>r. i_unlock_requirement_island_id r = Some iid) (islands_tbl d) of
        None \<Rightarrow> d
      | Some next_island \<Rightarrow>
          if isIslandUnlocked d uid (i_id next_island) then d
          else
            (let d1 = snd (unlockIsland now uid (i_id next_island) d)
             in case eligibleCrewOnIslandUnlock next_island of
                  None \<Rightarrow> d1
                | Some cid \<Rightarrow> snd (unlockCrewMember now uid cid d1)))"

definition collectQuest :: "sql_config \<Rightarrow> (db \<Rightarrow> ident \<Rightarrow> ident \<Rightarrow> bool) \<Rightarrow> instant
    \<Rightarrow> active_quest_row \<Rightarrow> unit io" where
  "collectQuest cfg isIslandCleared now inst d =
     (if inst \<notin> set (active_quests_tbl d) then (Inl PreconditionViolation, d)
      else
        (case find (\<lambda>q. q_id q = aq_quest_id inst) (quests_tbl d) of
           None \<Rightarrow> (Inl PreconditionViolation, d)
         | Some q \<Rightarrow>
             if now < aq_started_at inst + q_duration_hours q * hour
             then (Inl PreconditionViolation, d)
             else
               (let d1 = addBerrys cfg (aq_user_id inst) (q_reward_berrys q) d;
                    d2 = (if isIslandCleared d1 (aq_user_id inst) (q_island_id q)
                          then unlock_next_island now (aq_user_id inst) (q_island_id q) d1
                          else d1)
                in (Inr (),
                    d2\<lparr>quest_history_tbl := quest_history_tbl d2 @
                          [\<lparr>h_user_id = aq_user_id inst, h_quest_id = aq_quest_id inst,
                            h_crew = aq_crew inst, h_started_at = aq_started_at inst,
                            h_completed_at = now, h_reward_berrys = q_reward_berrys q\<rparr>],
                        active_quests_tbl := remove1 inst (active_quests_tbl d2)\<rparr>))))"

section \<open>The operations of the running server\<close>

text \<open>
  What the running server does to the store: the start-up block, the reconciliation
  pass, the user model's writes, the ledger's unlocks and the scheduler's transitions.
  The seed script run by hand against a populated catalogue is not among them: the
  server reaches \<open>seedWorldMapData\<close> only through the start-up block.
\<close>

datatype operation =
  StartUp
  | InitializeExistingUsers
  | UpdateIslandCoordinates
  | CreateUser ident UserCreate
  | UpdateUser ident UserUpdate
  | UpdateLastLogin ident
  | DeleteUser ident
  | AddBerrys ident int
  | UnlockIsland ident ident
  | UnlockCrewMember ident ident
  | StartQuest ident ident "ident list"
  | CollectQuest active_quest_row

record environment =
  env_sql :: sql_config
  env_hash :: "string \<Rightarrow> string"
  env_user_defaults :: user_row
  env_isIslandCleared :: "db \<Rightarrow> ident \<Rightarrow> ident \<Rightarrow> bool"

fun perform :: "environment \<Rightarrow> instant \<Rightarrow> operation \<Rightarrow> db \<Rightarrow> db" where
  "perform env now StartUp d = initializeWorldMap (ledger now) d"
| "perform env now InitializeExistingUsers d = snd (initializeExistingUsers (ledger now) d)"
| "perform env now UpdateIslandCoordinates d = updateIslandCoordinates d"
| "perform env now (CreateUser new_id userData) d =
     snd (create (ledger now) (env_hash env) (env_user_defaults env) new_id userData d)"
| "perform env now (UpdateUser uid updates) d = snd (update (env_hash env) now uid updates d)"
| "perform env now (UpdateLastLogin uid) d = updateLastLogin now uid d"
| "perform env now (DeleteUser uid) d = delete now uid d"
| "perform env now (AddBerrys uid amount) d = addBerrys (env_sql env) uid amount d"
| "perform env now (UnlockIsland uid iid) d = snd (unlockIsland now uid iid d)"
| "perform env now (UnlockCrewMember uid cid) d = snd (unlockCrewMember now uid cid d)"
| "perform env now (StartQuest uid qid companions) d = snd (startQuest now uid qid companions d)"
| "perform env now (CollectQuest inst) d =
     snd (collectQuest (env_sql env) (env_isIslandCleared env) now inst d)"

text \<open>A run of the server: operations with the instants at which they happen.\<close>

fun run :: "environment \<Rightarrow> (instant \<times> operation) list \<Rightarrow> db \<Rightarrow> db" where
  "run env [] d = d"
| "run env ((now, op) # rest) d = run env rest (perform env now op d)"

section \<open>Catalogue invariants\<close>

text \<open>
  The two invariants the specification asks of a catalogue, as executable checks on the
  seed's definitions. An island chain is walked from its root along the unlock
  requirement, one step per island of the catalogue at most, so a cycle cannot keep the
  walk going.
\<close>

definition roots :: "IslandData list \<Rightarrow> IslandData list" where
  "roots cat = filter (\<lambda>i. is_unlock_requirement_island_id i = None) cat"

definition successors :: "IslandData list \<Rightarrow> ident \<Rightarrow> IslandData list" where
  "successors cat iid = filter (\<lambda>i. is_unlock_requirement_island_id i = Some iid) cat"

fun walk :: "IslandData list \<Rightarrow> nat \<Rightarrow> ident \<Rightarrow> ident list" where
  "walk cat 0 iid = []"
| "walk cat (Suc fuel) iid =
     iid # (case successors cat iid of [next_island] \<Rightarrow> walk cat fuel (is_id next_island)
            | _ \<Rightarrow> [])"

definition single_chain :: "IslandData list \<Rightarrow> ident \<Rightarrow> bool" where
  "single_chain cat root =
     (distinct (map is_id cat)
      \<and> map is_id (roots cat) = [root]
      \<and> list_all (\<lambda>i. length (successors cat (is_id i)) \<le> 1) cat
      \<and> distinct (walk cat (length cat) root)
      \<and> set (walk cat (length cat) root) = set (map is_id cat))"

definition crew_reference_ok :: "IslandData list \<Rightarrow> CrewMemberData \<Rightarrow> bool" where
  "crew_reference_ok cat member =
     (case cm_unlock_island_id member of
        None \<Rightarrow> True
      | Some iid \<Rightarrow>
          (case find (\<lambda>i. is_id i = iid) cat of
             None \<Rightarrow> False
           | Some island \<Rightarrow>
               is_final_reward_type island = Some crew_member
               \<and> is_final_reward_crew_member_id island = Some (cm_id member)))"

section \<open>Sample stores\<close>

text \<open>Small concrete stores on which the theorems below are instantiated.\<close>

definition one_user_db :: "sql_num option \<Rightarrow> db" where
  "one_user_db b = empty_db\<lparr>users_tbl :=
     [\<lparr>u_id = ''u1'', u_username = ''nami'', u_password_hash = ''h'', u_updated_at = 0,
       u_last_login = None, u_is_admin = False, u_is_active = True, u_berrys = b\<rparr>]\<rparr>"

definition sample_defaults :: user_row where
  "sample_defaults = \<lparr>u_id = [], u_username = [], u_password_hash = [], u_updated_at = 0,
     u_last_login = None, u_is_admin = False, u_is_active = True, u_berrys = None\<rparr>"

definition sample_signup :: UserCreate where
  "sample_signup = \<lparr>new_username = ''robin'', new_password = ''secret''\<rparr>"

text \<open>
  A store with the seeded quests in which user \<open>u1\<close> holds the root island and the root
  crew member, has sent that crew member on the first quest at instant 0, and has one
  earlier collection on record.
\<close>

definition sample_instance :: active_quest_row where
  "sample_instance = \<lparr>aq_user_id = ''u1'', aq_quest_id = ''quest_fuchsia_1'',
     aq_crew = [''crew_luffy''], aq_started_at = 0\<rparr>"

definition sample_record :: history_row where
  "sample_record = \<lparr>h_user_id = ''u1'', h_quest_id = ''quest_fuchsia_3'',
     h_crew = [''crew_luffy''], h_started_at = 0, h_completed_at = 0, h_reward_berrys = 100\<rparr>"

definition sample_world :: db where
  "sample_world = (one_user_db None)\<lparr>
     quests_tbl := map quest_row_of quests,
     user_islands_tbl := [\<lparr>ui_user_id = ''u1'', ui_island_id = ''island_windmill_village'',
                           ui_unlocked_at = 0\<rparr>],
     user_crew_members_tbl := [\<lparr>uc_user_id = ''u1'', uc_crew_member_id = ''crew_luffy'',
                                uc_unlocked_at = 0\<rparr>],
     active_quests_tbl := [sample_instance],
     quest_history_tbl := [sample_record]\<rparr>"

text \<open>
  A driver that binds a number as an \<open>INTEGER\<close> when it fits 32 bits and as a \<open>REAL\<close>
  otherwise, on a column declared \<open>INTEGER\<close>.
\<close>

definition sample_config :: sql_config where
  "sample_config =
     \<lparr>bind_class = (\<lambda>a. if - 2147483648 \<le> a \<and> a \<le> 2147483647 then AS_INTEGER else AS_REAL),
      berrys_affinity = INTEGER_AFFINITY\<rparr>"

definition sample_environment :: environment where
  "sample_environment = \<lparr>env_sql = sample_config, env_hash = (\<lambda>p. p), env_user_defaults = sample_defaults,
     env_isIslandCleared = (\<lambda>d uid iid. False)\<rparr>"

section \<open>The currency cap\<close>

lemma bit_length_0: "bit_length 0 = 0"
  by (simp add: bit_length.simps)

lemma bit_length_pos: "n \<noteq> 0 \<Longrightarrow> bit_length n = Suc (bit_length (n div 2))"
  by (subst bit_length.simps) simp

lemma bit_length_le:
  "n < 2 ^ k \<Longrightarrow> bit_length n \<le> k"
proof (induction k arbitrary: n)
  case 0
  then show ?case by (simp add: bit_length_0)
next
  case (Suc k)
  show ?case
  proof (cases "n = 0")
    case True
    then show ?thesis by (simp add: bit_length_0)
  next
    case False
    from Suc.prems have "n div 2 < 2 ^ k" by simp
    from Suc.IH[OF this] False show ?thesis
      by (simp add: bit_length_pos)
  qed
qed

lemma bit_length_lower:
  "n \<noteq> 0 \<Longrightarrow> 2 ^ (bit_length n - 1) \<le> n"
proof (induction n rule: bit_length.induct)
  case (1 n)
  have bn: "bit_length n = Suc (bit_length (n div 2))"
    using "1.prems" by (rule bit_length_pos)
  show ?case
  proof (cases "n div 2 = 0")
    case True
    then have "bit_length n = 1" using bn by (simp add: bit_length_0)
    then show ?thesis using "1.prems" by simp
  next
    case False
    from "1.IH"[OF "1.prems" False] have ih: "2 ^ (bit_length (n div 2) - 1) \<le> n div 2" .
    from False obtain m where m: "bit_length (n div 2) = Suc m"
      by (auto simp: bit_length_pos)
    have "(2::nat) ^ (bit_length n - 1) = 2 * 2 ^ (bit_length (n div 2) - 1)"
      by (simp add: bn m)
    also have "\<dots> \<le> 2 * (n div 2)" using ih by simp
    also have "\<dots> \<le> n" by simp
    finally show ?thesis .
  qed
qed

lemma to_double_exact:
  assumes "\<bar>x\<bar> < 9007199254740992"
  shows "to_double x = x"
proof -
  have "nat \<bar>x\<bar> < 2 ^ 53" using assms by simp
  then have "bit_length (nat \<bar>x\<bar>) \<le> 53" by (rule bit_length_le)
  then show ?thesis by (simp add: to_double_def)
qed

lemma to_double_large:
  assumes "9007199254740992 \<le> x"
  shows "9007199254740992 \<le> to_double x"
proof (cases "bit_length (nat \<bar>x\<bar>) \<le> 53")
  case True
  with assms show ?thesis by (simp add: to_double_def)
next
  case False
  define n where "n = bit_length (nat \<bar>x\<bar>)"
  define e where "e = n - 53"
  define u :: int where "u = 2 ^ e"
  from False have n: "n = e + 53" and e: "1 \<le> e" by (simp_all add: n_def e_def)
  have xpos: "0 < x" "\<bar>x\<bar> = x" "sgn x = 1" using assms by simp_all
  have upos: "0 < u" and u2: "2 \<le> u"
  proof -
    show "0 < u" by (simp add: u_def)
    have "(2::int) ^ 1 \<le> 2 ^ e" using e by (intro power_increasing) simp_all
    then show "2 \<le> u" by (simp add: u_def)
  qed
  have "nat x \<noteq> 0" using xpos by simp
  from bit_length_lower[OF this] have "2 ^ (n - 1) \<le> nat x"
    using xpos by (simp add: n_def)
  then have "int (2 ^ (n - 1)) \<le> int (nat x)" by (simp only: of_nat_le_iff)
  then have "(2::int) ^ (n - 1) \<le> x" using xpos by simp
  moreover have "n - 1 = 52 + e" using n by simp
  ultimately have low: "4503599627370496 * u \<le> x" by (simp add: power_add u_def)
  have "(4503599627370496 * u) div u \<le> x div u"
    using low upos by (intro zdiv_mono1) simp_all
  then have q: "4503599627370496 \<le> x div u" using upos by simp
  define q' where "q' = (if u < 2 * (x mod u) \<or> (2 * (x mod u) = u \<and> odd (x div u))
        then x div u + 1 else x div u)"
  have q': "4503599627370496 \<le> q'" using q by (simp add: q'_def)
  have "4503599627370496 * 2 \<le> q' * u"
    using q' u2 by (intro mult_mono) simp_all
  moreover have "to_double x = q' * u"
  proof -
    have nx: "bit_length (nat x) = n" using xpos by (simp add: n_def)
    have ue: "(2::int) ^ (n - 53) = u" by (simp add: u_def e_def)
    have big: "\<not> n \<le> 53" using False by (simp add: n_def)
    show ?thesis
      by (simp add: to_double_def Let_def xpos nx ue big q'_def)
  qed
  ultimately show ?thesis by simp
qed



lemma to_double_sample3: "to_double (- 10000000000000000000) = - 10000000000000000000"
  by (simp add: to_double_def bit_length_pos bit_length_0)

lemma to_double_sample4: "to_double (- 10000000000000000001) = - 10000000000000000000"
  by (simp add: to_double_def bit_length_pos bit_length_0)

lemma find_map_same_key:
  assumes "\<And>x. P (f x) = P x"
  shows "find P (map f xs) = map_option f (find P xs)"
  using assms by (induction xs) auto


lemma bind_number_safe:
  assumes "\<bar>a\<bar> \<le> 9007199254740991"
  shows "bind_number cfg a = SqlInteger a \<or> bind_number cfg a = SqlReal a"
proof -
  have "int64 a" using assms by (auto simp: int64_def abs_le_iff)
  moreover have "to_double a = a" using assms by (intro to_double_exact) simp
  ultimately show ?thesis
    by (cases "bind_class cfg a") (simp_all add: bind_number_def)
qed

lemma sql_add_safe:
  assumes "\<bar>num_val x\<bar> \<le> 9007199254740991" and "\<bar>num_val y\<bar> \<le> 9007199254740991"
    and "- 9007199254740991 \<le> num_val x + num_val y"
  shows "num_val (sql_add x y) = num_val x + num_val y
     \<or> (9007199254740992 \<le> num_val x + num_val y \<and> 9007199254740992 \<le> num_val (sql_add x y))"
proof -
  let ?s = "num_val x + num_val y"
  have rx: "real_val x = num_val x" using assms(1) by (cases x) (simp_all add: to_double_exact)
  have ry: "real_val y = num_val y" using assms(2) by (cases y) (simp_all add: to_double_exact)
  have rounded: "to_double ?s = ?s \<or> (9007199254740992 \<le> ?s \<and> 9007199254740992 \<le> to_double ?s)"
  proof (cases "?s < 9007199254740992")
    case True
    with assms(3) have "\<bar>?s\<bar> < 9007199254740992" by simp
    then show ?thesis by (simp add: to_double_exact)
  next
    case False
    then have "9007199254740992 \<le> ?s" by simp
    then show ?thesis using to_double_large[of ?s] by simp
  qed
  show ?thesis
  proof (cases x)
    case xi: (SqlInteger a)
    show ?thesis
    proof (cases y)
      case (SqlInteger b)
      have "int64 (a + b)" using assms xi SqlInteger by (auto simp: int64_def abs_le_iff)
      with xi SqlInteger show ?thesis by simp
    next
      case (SqlReal b)
      with xi rounded rx ry show ?thesis by simp
    qed
  next
    case (SqlReal a)
    with rounded rx ry show ?thesis by (cases y) simp_all
  qed
qed

lemma apply_affinity_safe:
  assumes "\<bar>num_val x\<bar> \<le> 9007199254740991"
  shows "num_val (apply_affinity aff x) = num_val x"
  using assms by (cases aff; cases x) (simp_all add: to_double_exact)

lemma berrys_step:
  assumes "\<bar>num_val x\<bar> \<le> 9007199254740991" and "\<bar>a\<bar> \<le> 9007199254740991"
    and "- 9007199254740991 \<le> num_val x + a"
  shows "num_val (apply_affinity aff
            (MIN2 (sql_add x (bind_number cfg a)) (bind_number cfg MAX_BERRYS)))
         = min (num_val x + a) 999999999"
proof -
  have va: "num_val (bind_number cfg a) = a"
    using bind_number_safe[OF assms(2), of cfg] by auto
  have vc: "num_val (bind_number cfg MAX_BERRYS) = 999999999"
    using bind_number_safe[of MAX_BERRYS cfg] by (auto simp: MAX_BERRYS_def)
  from sql_add_safe[of x "bind_number cfg a"] assms
  have sum: "num_val (sql_add x (bind_number cfg a)) = num_val x + a
     \<or> (9007199254740992 \<le> num_val x + a
         \<and> 9007199254740992 \<le> num_val (sql_add x (bind_number cfg a)))"
    by (simp add: va)
  have m: "num_val (MIN2 (sql_add x (bind_number cfg a)) (bind_number cfg MAX_BERRYS))
      = min (num_val x + a) 999999999"
    using sum by (auto simp: MIN2_def vc)
  have "\<bar>min (num_val x + a) 999999999\<bar> \<le> 9007199254740991"
    using assms(3) by simp
  with m show ?thesis by (simp add: apply_affinity_safe)
qed

lemma balance_addBerrys:
  assumes "balance d uid = Some prior" and "\<bar>prior\<bar> \<le> 9007199254740991"
    and "\<bar>amount\<bar> \<le> 9007199254740991" and "- 9007199254740991 \<le> prior + amount"
  shows "balance (addBerrys cfg uid amount d) uid = Some (min (prior + amount) 999999999)"
proof -
  let ?g = "\<lambda>u. if u_id u = uid
       then u\<lparr>u_berrys := Some (apply_affinity (berrys_affinity cfg)
              (MIN2 (sql_add (COALESCE (u_berrys u) (SqlInteger 0)) (bind_number cfg amount))
                 (bind_number cfg MAX_BERRYS)))\<rparr>
       else u"
  from assms(1) obtain u where
    u: "find (\<lambda>u. u_id u = uid) (users_tbl d) = Some u"
    and p: "num_val (COALESCE (u_berrys u) (SqlInteger 0)) = prior"
    by (auto simp: balance_def split: option.splits)
  from u have uid: "u_id u = uid" by (auto simp: find_Some_iff)
  have "find (\<lambda>u. u_id u = uid) (map ?g (users_tbl d)) =
        map_option ?g (find (\<lambda>u. u_id u = uid) (users_tbl d))"
    by (rule find_map_same_key) simp
  then have "balance (addBerrys cfg uid amount d) uid =
      Some (num_val (apply_affinity (berrys_affinity cfg)
              (MIN2 (sql_add (COALESCE (u_berrys u) (SqlInteger 0)) (bind_number cfg amount))
                 (bind_number cfg MAX_BERRYS))))"
    using u uid by (simp add: balance_def addBerrys_def COALESCE_def)
  also have "\<dots> = Some (min (prior + amount) 999999999)"
    using berrys_step[of "COALESCE (u_berrys u) (SqlInteger 0)" amount "berrys_affinity cfg" cfg]
      assms(2-4) p by simp
  finally show ?thesis .
qed






text \<open>
  C10, within the exact range. \<open>addBerrys\<close> has no lower bound: for a negative amount,
  with the prior balance, the amount and their sum whole numbers of magnitude at most
  \<open>2^53 - 1\<close>, the balance becomes \<open>min (prior + amount) 999999999\<close>, which is below the
  prior balance, is \<open>prior + amount\<close> itself whenever that does not pass the cap, and is
  negative whenever \<open>prior + amount\<close> is.
\<close>

theorem addBerrys_no_lower_bound:
  assumes "balance d uid = Some prior" and "amount < 0"
    and "\<bar>prior\<bar> \<le> 9007199254740991" and "- 9007199254740991 \<le> amount"
    and "- 9007199254740991 \<le> prior + amount"
  shows "\<exists>b. balance (addBerrys cfg uid amount d) uid = Some b
    \<and> b = min (prior + amount) 999999999
    \<and> b < prior
    \<and> (prior + amount \<le> 999999999 \<longrightarrow> b = prior + amount)
    \<and> (prior + amount < 0 \<longrightarrow> b < 0)"
proof -
  have "balance (addBerrys cfg uid amount d) uid = Some (min (prior + amount) 999999999)"
    using assms by (intro balance_addBerrys) simp_all
  then show ?thesis using assms(2) by simp
qed

theorem addBerrys_no_lower_bound_witness:
  "balance (one_user_db (Some (SqlInteger 5))) ''u1'' = Some 5
   \<and> balance (addBerrys sample_config ''u1'' (- 10) (one_user_db (Some (SqlInteger 5)))) ''u1''
       = Some (- 5)"
proof -
  have h: "balance (one_user_db (Some (SqlInteger 5))) ''u1'' = Some 5"
    by (simp add: balance_def one_user_db_def empty_db_def COALESCE_def)
  show ?thesis
    using h addBerrys_no_lower_bound[OF h, of "- 10" sample_config] by simp
qed

text \<open>
  C10 fails outside that range. After a grant of \<open>- 10^19\<close> to an empty balance the
  column holds a double, and a further grant of \<open>- 1\<close> is absorbed by the rounding: the
  balance is not lowered.
\<close>

theorem addBerrys_no_lower_bound_counterexample:
  "balance (grants sample_config ''u1'' [- 10000000000000000000] (one_user_db None)) ''u1''
     = Some (- 10000000000000000000)
   \<and> balance (addBerrys sample_config ''u1'' (- 1)
         (grants sample_config ''u1'' [- 10000000000000000000] (one_user_db None))) ''u1''
     = Some (- 10000000000000000000)"
  by (simp add: balance_def grants_def addBerrys_def one_user_db_def empty_db_def COALESCE_def
      sample_config_def bind_number_def int64_def MIN2_def MAX_BERRYS_def to_double_exact
      to_double_sample3 to_double_sample4)

section \<open>\<open>UserModel.update\<close> with nothing to update\<close>

text \<open>
  C9. When username, password, is_admin and is_active are all \<open>undefined\<close>, \<open>update\<close>
  leaves the store as it was, \<open>updated_at\<close> included, and returns what \<open>findById\<close>
  returns for the id.
\<close>

theorem update_without_fields_writes_nothing:
  "update hash now uid
     \<lparr>upd_username = None, upd_password = None, upd_is_admin = None, upd_is_active = None\<rparr> d
   = (findById uid d, d)"
  by (simp add: update_def update_fields_def)

section \<open>Reconciliation\<close>

lemma find_append_case:
  "find P (xs @ ys) = (case find P xs of None \<Rightarrow> find P ys | Some x \<Rightarrow> Some x)"
  by (induction xs) auto

lemma find_append_keeps:
  "find P xs \<noteq> None \<Longrightarrow> find P (xs @ ys) \<noteq> None"
  by (induction xs) auto

lemma find_append_new:
  "P y \<Longrightarrow> find P (xs @ [y]) \<noteq> None"
  by (induction xs) auto

lemma reconcileUser_ledger:
  "reconcileUser (ledger now) uid d =
     (Inr (\<not> isIslandUnlocked d uid ''island_windmill_village''
           \<or> \<not> isCrewUnlocked d uid ''crew_luffy''),
      d\<lparr>user_islands_tbl := user_islands_tbl d @
           (if isIslandUnlocked d uid ''island_windmill_village'' then []
            else [\<lparr>ui_user_id = uid, ui_island_id = ''island_windmill_village'',
                   ui_unlocked_at = now\<rparr>]),
        user_crew_members_tbl := user_crew_members_tbl d @
           (if isCrewUnlocked d uid ''crew_luffy'' then []
            else [\<lparr>uc_user_id = uid, uc_crew_member_id = ''crew_luffy'',
                   uc_unlocked_at = now\<rparr>])\<rparr>)"
  by (simp add: reconcileUser_def ledger_def and_then_def done_io_def unlockIsland_def
      unlockCrewMember_def isIslandUnlocked_def isCrewUnlocked_def select_user_island_def
      select_user_crew_member_def)

lemma reconcileUser_ledger_baseline:
  "reconcileUser (ledger now) uid d = (r, d') \<Longrightarrow>
     baseline d' uid \<and> users_tbl d' = users_tbl d \<and> (\<forall>v. baseline d v \<longrightarrow> baseline d' v)
     \<and> (\<exists>b. r = Inr b)"
  unfolding reconcileUser_ledger
  by (auto simp: baseline_def isIslandUnlocked_def isCrewUnlocked_def select_user_island_def
      select_user_crew_member_def find_append_case split: option.split)

lemma reconcileUser_ledger_noop:
  "baseline d uid \<Longrightarrow> reconcileUser (ledger now) uid d = (Inr False, d)"
  unfolding reconcileUser_ledger by (simp add: baseline_def)

lemma loop_establishes:
  "\<exists>n' d'. initializeExistingUsers_loop (ledger now) us n d = (Inr n', d')
     \<and> users_tbl d' = users_tbl d
     \<and> (\<forall>v. baseline d v \<longrightarrow> baseline d' v)
     \<and> (\<forall>u \<in> set us. baseline d' u)"
proof (induction us arbitrary: n d)
  case Nil
  then show ?case by simp
next
  case (Cons u us)
  obtain r d1 where step: "reconcileUser (ledger now) u d = (r, d1)"
    by (cases "reconcileUser (ledger now) u d") auto
  from reconcileUser_ledger_baseline[OF step]
  obtain b where r: "r = Inr b" and b1: "baseline d1 u" and u1: "users_tbl d1 = users_tbl d"
    and m1: "\<forall>v. baseline d v \<longrightarrow> baseline d1 v" by auto
  from Cons.IH[of "if b then n + 1 else n" d1]
  obtain n' d' where
    run: "initializeExistingUsers_loop (ledger now) us (if b then n + 1 else n) d1 = (Inr n', d')"
    and u2: "users_tbl d' = users_tbl d1"
    and m2: "\<forall>v. baseline d1 v \<longrightarrow> baseline d' v"
    and all: "\<forall>u \<in> set us. baseline d' u" by blast
  have "initializeExistingUsers_loop (ledger now) (u # us) n d = (Inr n', d')"
    using step r run by simp
  moreover have "users_tbl d' = users_tbl d" using u1 u2 by simp
  moreover have "\<forall>v. baseline d v \<longrightarrow> baseline d' v" using m1 m2 by blast
  moreover have "\<forall>x \<in> set (u # us). baseline d' x" using all b1 m2 by auto
  ultimately show ?case by blast
qed

lemma loop_noop:
  "\<forall>u \<in> set us. baseline d u \<Longrightarrow>
     initializeExistingUsers_loop (ledger now) us n d = (Inr n, d)"
  by (induction us arbitrary: n) (simp_all add: reconcileUser_ledger_noop)

text \<open>
  C1. Reconciliation is idempotent. On every store the pass completes, and a second pass
  on the store it leaves (at any later instant) leaves that store as it is, every table
  included, and counts no user as initialised.
\<close>

theorem initializeExistingUsers_idempotent:
  "\<exists>n d1. initializeExistingUsers (ledger t1) d = (Inr n, d1)
     \<and> initializeExistingUsers (ledger t2) d1 = (Inr 0, d1)"
proof -
  from loop_establishes[of t1 "select_active_user_ids d" 0 d]
  obtain n d1 where
    run: "initializeExistingUsers_loop (ledger t1) (select_active_user_ids d) 0 d = (Inr n, d1)"
    and same: "users_tbl d1 = users_tbl d"
    and all: "\<forall>u \<in> set (select_active_user_ids d). baseline d1 u" by blast
  have ids: "select_active_user_ids d1 = select_active_user_ids d"
    using same by (simp add: select_active_user_ids_def)
  have "initializeExistingUsers (ledger t2) d1 = (Inr 0, d1)"
    unfolding initializeExistingUsers_def ids using all by (rule loop_noop)
  with run show ?thesis by (auto simp: initializeExistingUsers_def)
qed

text \<open>
  C3. After one iteration of the loop of \<open>initializeExistingUsers\<close> the user holds the
  root island and the root crew member, whatever the store was. The iteration appends
  at most these two unlock records, which ones being decided by the two existence checks
  alone; every record that was there stays, and no other table changes.
\<close>

theorem reconcileUser_grants_baseline:
  "\<exists>needed d'. reconcileUser (ledger now) uid d = (Inr needed, d')
     \<and> isIslandUnlocked d' uid ''island_windmill_village''
     \<and> isCrewUnlocked d' uid ''crew_luffy''
     \<and> user_islands_tbl d' = user_islands_tbl d @
          (if isIslandUnlocked d uid ''island_windmill_village'' then []
           else [\<lparr>ui_user_id = uid, ui_island_id = ''island_windmill_village'',
                  ui_unlocked_at = now\<rparr>])
     \<and> user_crew_members_tbl d' = user_crew_members_tbl d @
          (if isCrewUnlocked d uid ''crew_luffy'' then []
           else [\<lparr>uc_user_id = uid, uc_crew_member_id = ''crew_luffy'',
                  uc_unlocked_at = now\<rparr>])
     \<and> d'\<lparr>user_islands_tbl := user_islands_tbl d,
           user_crew_members_tbl := user_crew_members_tbl d\<rparr> = d"
  unfolding reconcileUser_ledger
  by (simp add: isIslandUnlocked_def isCrewUnlocked_def select_user_island_def
      select_user_crew_member_def find_append_case split: option.split)

theorem initializeExistingUsers_idempotent_witness:
  "fst (initializeExistingUsers (ledger 1) (one_user_db None)) = Inr 1
   \<and> initializeExistingUsers (ledger 2) (snd (initializeExistingUsers (ledger 1) (one_user_db None)))
       = (Inr 0, snd (initializeExistingUsers (ledger 1) (one_user_db None)))"
proof -
  have "fst (initializeExistingUsers (ledger 1) (one_user_db None)) = Inr 1"
    by (simp add: initializeExistingUsers_def select_active_user_ids_def one_user_db_def
        empty_db_def reconcileUser_ledger isIslandUnlocked_def isCrewUnlocked_def
        select_user_island_def select_user_crew_member_def)
  then show ?thesis
    using initializeExistingUsers_idempotent[of 1 "one_user_db None" 2] by auto
qed

theorem reconcileUser_grants_baseline_witness:
  "isIslandUnlocked (snd (reconcileUser (ledger 7) ''u1'' (one_user_db None))) ''u1''
     ''island_windmill_village''
   \<and> isCrewUnlocked (snd (reconcileUser (ledger 7) ''u1'' (one_user_db None))) ''u1'' ''crew_luffy''
   \<and> \<not> isIslandUnlocked (one_user_db None) ''u1'' ''island_windmill_village''"
proof -
  have "\<not> isIslandUnlocked (one_user_db None) ''u1'' ''island_windmill_village''"
    by (simp add: isIslandUnlocked_def select_user_island_def one_user_db_def empty_db_def)
  then show ?thesis
    using reconcileUser_grants_baseline[of 7 "''u1''" "one_user_db None"] by auto
qed

section \<open>Account creation\<close>

lemma find_fresh_append:
  "\<forall>x \<in> set xs. \<not> P x \<Longrightarrow> P y \<Longrightarrow> find P (xs @ [y]) = Some y"
  by (induction xs) auto

lemma insert_user_fresh:
  assumes "new_id \<notin> set (map u_id (users_tbl d))" and "u_is_active dflt"
  shows "insert_user dflt new_id name pwhash d =
           (Inr (), d\<lparr>users_tbl := users_tbl d @ [inserted_user dflt new_id name pwhash]\<rparr>)"
    and "findById new_id (d\<lparr>users_tbl := users_tbl d @ [inserted_user dflt new_id name pwhash]\<rparr>)
           = Some (inserted_user dflt new_id name pwhash)"
proof -
  show "insert_user dflt new_id name pwhash d =
           (Inr (), d\<lparr>users_tbl := users_tbl d @ [inserted_user dflt new_id name pwhash]\<rparr>)"
    using assms(1) by (simp add: insert_user_def)
  have "\<forall>u \<in> set (users_tbl d). \<not> (u_id u = new_id \<and> u_is_active u)"
    using assms(1) by auto
  moreover have "u_id (inserted_user dflt new_id name pwhash) = new_id
      \<and> u_is_active (inserted_user dflt new_id name pwhash)"
    using assms(2) by (simp add: inserted_user_def)
  ultimately show "findById new_id
      (d\<lparr>users_tbl := users_tbl d @ [inserted_user dflt new_id name pwhash]\<rparr>)
           = Some (inserted_user dflt new_id name pwhash)"
    by (simp add: findById_def find_fresh_append)
qed

text \<open>
  C6. Once the user row is inserted (the id is new and accounts are active by default),
  \<open>create\<close> resolves to that user whatever the two unlock calls do. They run on the
  store that already holds the row; when either throws, the error is printed and not
  propagated, and the second call is skipped when the first threw.
\<close>

theorem create_survives_failed_initialisation:
  assumes "new_id \<notin> set (map u_id (users_tbl d))" and "u_is_active dflt"
  shows "\<exists>user d1.
      user = inserted_user dflt new_id (new_username userData) (hash (new_password userData))
    \<and> d1 = d\<lparr>users_tbl := users_tbl d @ [user]\<rparr>
    \<and> (\<exists>printed d2. create wm hash dflt new_id userData d = (Inr (user, printed), d2))
    \<and> (\<forall>e d2. wm_unlockIsland wm new_id ''island_windmill_village'' d1 = (Inl e, d2) \<longrightarrow>
          create wm hash dflt new_id userData d = (Inr (user, [InitialisationFailed e]), d2))
    \<and> (\<forall>e d2 d3. wm_unlockIsland wm new_id ''island_windmill_village'' d1 = (Inr (), d2)
            \<and> wm_unlockCrewMember wm new_id ''crew_luffy'' d2 = (Inl e, d3) \<longrightarrow>
          create wm hash dflt new_id userData d = (Inr (user, [InitialisationFailed e]), d3))
    \<and> (\<forall>d2 d3. wm_unlockIsland wm new_id ''island_windmill_village'' d1 = (Inr (), d2)
            \<and> wm_unlockCrewMember wm new_id ''crew_luffy'' d2 = (Inr (), d3) \<longrightarrow>
          create wm hash dflt new_id userData d = (Inr (user, []), d3))"
proof -
  let ?user = "inserted_user dflt new_id (new_username userData) (hash (new_password userData))"
  let ?d1 = "d\<lparr>users_tbl := users_tbl d @ [?user]\<rparr>"
  note ins = insert_user_fresh[OF assms, of "new_username userData" "hash (new_password userData)"]
  have shape: "create wm hash dflt new_id userData d =
      (case and_then (wm_unlockIsland wm new_id ''island_windmill_village'')
              (\<lambda>_. wm_unlockCrewMember wm new_id ''crew_luffy'') ?d1 of
         (Inl e, d2) \<Rightarrow> (Inr (?user, [InitialisationFailed e]), d2)
       | (Inr _, d2) \<Rightarrow> (Inr (?user, []), d2))"
    by (simp add: create_def ins)
  have "\<exists>printed d2. create wm hash dflt new_id userData d = (Inr (?user, printed), d2)"
    unfolding shape by (auto split: prod.split sum.split)
  moreover have "\<forall>e d2. wm_unlockIsland wm new_id ''island_windmill_village'' ?d1 = (Inl e, d2) \<longrightarrow>
          create wm hash dflt new_id userData d = (Inr (?user, [InitialisationFailed e]), d2)"
    unfolding shape by (simp add: and_then_def)
  moreover have "\<forall>e d2 d3. wm_unlockIsland wm new_id ''island_windmill_village'' ?d1 = (Inr (), d2)
            \<and> wm_unlockCrewMember wm new_id ''crew_luffy'' d2 = (Inl e, d3) \<longrightarrow>
          create wm hash dflt new_id userData d = (Inr (?user, [InitialisationFailed e]), d3)"
    unfolding shape by (simp add: and_then_def)
  moreover have "\<forall>d2 d3. wm_unlockIsland wm new_id ''island_windmill_village'' ?d1 = (Inr (), d2)
            \<and> wm_unlockCrewMember wm new_id ''crew_luffy'' d2 = (Inr (), d3) \<longrightarrow>
          create wm hash dflt new_id userData d = (Inr (?user, []), d3)"
    unfolding shape by (simp add: and_then_def)
  ultimately show ?thesis by blast
qed

theorem create_survives_failed_initialisation_witness:
  "create broken_ledger (\<lambda>p. p) sample_defaults ''u2'' sample_signup (one_user_db None) =
     (Inr (inserted_user sample_defaults ''u2'' ''robin'' ''secret'',
           [InitialisationFailed (OtherError ''unlockIsland'')]),
      (one_user_db None)\<lparr>users_tbl := users_tbl (one_user_db None) @
         [inserted_user sample_defaults ''u2'' ''robin'' ''secret'']\<rparr>)
   \<and> ''u2'' \<notin> set (map u_id (users_tbl (one_user_db None)))
   \<and> u_is_active sample_defaults"
proof -
  have fresh: "''u2'' \<notin> set (map u_id (users_tbl (one_user_db None)))"
    by (simp add: one_user_db_def empty_db_def)
  have active: "u_is_active sample_defaults"
    by (simp add: sample_defaults_def)
  have thrown: "wm_unlockIsland broken_ledger ''u2'' ''island_windmill_village'' d1 =
      (Inl (OtherError ''unlockIsland''), d1)" for d1
    by (simp add: broken_ledger_def)
  show ?thesis
    using create_survives_failed_initialisation[OF fresh active,
        where hash = "\<lambda>p. p" and userData = sample_signup and wm = broken_ledger]
      thrown fresh active
    by (simp add: sample_signup_def)
qed

section \<open>Seeding the world map\<close>

lemma and_then_Inr:
  "and_then m f d = (Inr y, d') \<Longrightarrow> \<exists>x d1. m d = (Inr x, d1) \<and> f x d1 = (Inr y, d')"
  by (auto simp: and_then_def split: prod.splits sum.splits)

lemma and_then_step:
  "m d = (Inr x, d1) \<Longrightarrow> and_then m f d = f x d1"
  by (simp add: and_then_def)







lemma update_crew_member_unlock_eq:
  "update_crew_member_unlock m d =
     (Inr (), d\<lparr>crew_members_tbl := map (set_unlock_island m) (crew_members_tbl d)\<rparr>)"
proof (cases "cm_unlock_island_id m")
  case None
  then have "map (set_unlock_island m) (crew_members_tbl d) = crew_members_tbl d"
    by (simp add: set_unlock_island_def map_idI)
  with None show ?thesis by (simp add: update_crew_member_unlock_def)
next
  case (Some iid)
  show ?thesis
  proof (cases "iid = []")
    case True
    with Some have "map (set_unlock_island m) (crew_members_tbl d) = crew_members_tbl d"
      by (simp add: set_unlock_island_def map_idI)
    with Some True show ?thesis by (simp add: update_crew_member_unlock_def)
  next
    case False
    with Some have "set_unlock_island m =
        (\<lambda>r. if c_id r = cm_id m then r\<lparr>c_unlock_island_id := Some iid\<rparr> else r)"
      by (simp add: set_unlock_island_def fun_eq_iff)
    with Some False show ?thesis by (simp add: update_crew_member_unlock_def)
  qed
qed




lemma seed_user_ledger:
  "\<exists>d'. seed_user (ledger now) uid d = (Inr (), d')
     \<and> crew_members_tbl d' = crew_members_tbl d
     \<and> islands_tbl d' = islands_tbl d
     \<and> quests_tbl d' = quests_tbl d
     \<and> quest_history_tbl d' = quest_history_tbl d"
  by (simp add: seed_user_def ledger_def and_then_def done_io_def unlockIsland_def
      unlockCrewMember_def)













section \<open>The seeded catalogue\<close>

lemma walk_islands:
  "walk islands (length islands) ''island_windmill_village'' = map is_id islands"
  by (simp add: islands_def successors_def)

text \<open>
  C8. The seed's catalogue has twelve islands; their unlock requirements form one chain
  from the only root, \<open>island_windmill_village\<close>, that visits every island once; and
  every crew member with an unlock island names an island whose final reward is of type
  \<open>crew_member\<close> and is that crew member.
\<close>

theorem seeded_catalogue_invariants:
  "length islands = 12
   \<and> single_chain islands ''island_windmill_village''
   \<and> list_all (crew_reference_ok islands) crewMembers"
proof -
  have "length islands = 12" by (simp add: islands_def)
  moreover have "distinct (map is_id islands)" by (simp add: islands_def)
  moreover have "map is_id (roots islands) = [''island_windmill_village'']"
    by (simp add: islands_def roots_def)
  moreover have "list_all (\<lambda>i. length (successors islands (is_id i)) \<le> 1) islands"
    by (simp add: islands_def successors_def)
  moreover have "list_all (crew_reference_ok islands) crewMembers"
    by (simp add: islands_def crewMembers_def crew_reference_ok_def)
  ultimately show ?thesis
    unfolding single_chain_def walk_islands by simp
qed

section \<open>Companion exclusivity\<close>

text \<open>
  C4. When a companion supplied to Start is listed by one of the user's stored active
  instances, Start fails with \<open>PreconditionViolation\<close> and leaves the store exactly as
  it was: no new instance, no partial write.
\<close>

theorem startQuest_rejects_busy_companion:
  assumes "inst \<in> set (active_quests_tbl d)" and "aq_user_id inst = uid"
    and "c \<in> set (aq_crew inst)" and "c \<in> set companions"
  shows "startQuest now uid qid companions d = (Inl PreconditionViolation, d)"
proof -
  have "companion_busy d uid c"
    using assms(1-3) by (auto simp: companion_busy_def list_ex_iff)
  with assms(4) have "\<not> list_all (\<lambda>c. \<not> companion_busy d uid c) companions"
    by (auto simp: list_all_iff)
  then have "\<not> start_preconditions d uid q companions" for q
    by (simp add: start_preconditions_def)
  then show ?thesis
    by (simp add: startQuest_def split: option.split)
qed

lemma sample_quest_lookup:
  "find (\<lambda>q. q_id q = ''quest_fuchsia_2'') (quests_tbl sample_world) =
     Some (quest_row_of \<lparr>qd_id = ''quest_fuchsia_2'', qd_island_id = ''island_windmill_village'',
       qd_duration_hours = 2, qd_reward_berrys = 75, qd_required_crew_count = 1,
       qd_specific_crew_member_id = None, qd_order_index = 2, qd_is_repeatable = True\<rparr>)"
  by (simp add: sample_world_def quests_def quest_row_of_def)

theorem startQuest_rejects_busy_companion_witness:
  "startQuest 5 ''u1'' ''quest_fuchsia_2'' [''crew_luffy''] sample_world
     = (Inl PreconditionViolation, sample_world)
   \<and> fst (startQuest 5 ''u1'' ''quest_fuchsia_2'' [''crew_luffy'']
            (sample_world\<lparr>active_quests_tbl := []\<rparr>)) = Inr ()
   \<and> sample_instance \<in> set (active_quests_tbl sample_world)
   \<and> aq_user_id sample_instance = ''u1''
   \<and> ''crew_luffy'' \<in> set (aq_crew sample_instance)"
proof -
  have a: "sample_instance \<in> set (active_quests_tbl sample_world)"
    by (simp add: sample_world_def)
  have b: "aq_user_id sample_instance = ''u1''" and c: "''crew_luffy'' \<in> set (aq_crew sample_instance)"
    by (simp_all add: sample_instance_def)
  have free: "fst (startQuest 5 ''u1'' ''quest_fuchsia_2'' [''crew_luffy'']
            (sample_world\<lparr>active_quests_tbl := []\<rparr>)) = Inr ()"
    using sample_quest_lookup
    by (simp add: startQuest_def start_preconditions_def quest_row_of_def
        isIslandUnlocked_def isCrewUnlocked_def select_user_island_def
        select_user_crew_member_def companion_busy_def has_history_def sample_world_def)
  show ?thesis
    using startQuest_rejects_busy_companion[OF a b c, of "[''crew_luffy'']" 5 "''quest_fuchsia_2''"]
      a b c free by simp
qed

section \<open>The quest history\<close>

lemma history_and_then:
  assumes "\<And>d. quest_history_tbl (snd (m d)) = quest_history_tbl d"
    and "\<And>x d. quest_history_tbl (snd (f x d)) = quest_history_tbl d"
  shows "quest_history_tbl (snd (and_then m f d)) = quest_history_tbl d"
proof (cases "m d")
  case (Pair r d1)
  with assms(1)[of d] have h: "quest_history_tbl d1 = quest_history_tbl d" by simp
  show ?thesis
  proof (cases r)
    case (Inl e)
    with Pair h show ?thesis by (simp add: and_then_def)
  next
    case (Inr x)
    with Pair h assms(2)[of x d1] show ?thesis by (simp add: and_then_def)
  qed
qed

lemma history_for_each:
  assumes "\<And>x d. quest_history_tbl (snd (f x d)) = quest_history_tbl d"
  shows "quest_history_tbl (snd (for_each f xs d)) = quest_history_tbl d"
proof (induction xs arbitrary: d)
  case Nil
  then show ?case by simp
next
  case (Cons x xs)
  show ?case
  proof (cases "f x d")
    case (Pair r d1)
    with assms[of x d] have h: "quest_history_tbl d1 = quest_history_tbl d" by simp
    with Pair Cons.IH[of d1] show ?thesis by (cases r) simp_all
  qed
qed

lemma history_unlockIsland:
  "quest_history_tbl (snd (unlockIsland now uid iid d)) = quest_history_tbl d"
  by (simp add: unlockIsland_def)

lemma history_unlockCrewMember:
  "quest_history_tbl (snd (unlockCrewMember now uid cid d)) = quest_history_tbl d"
  by (simp add: unlockCrewMember_def)

lemma history_inserts:
  "quest_history_tbl (snd (insert_crew_member m d)) = quest_history_tbl d"
  "quest_history_tbl (snd (insert_island i d)) = quest_history_tbl d"
  "quest_history_tbl (snd (insert_quest q d)) = quest_history_tbl d"
  "quest_history_tbl (snd (update_crew_member_unlock m d)) = quest_history_tbl d"
  by (simp_all add: insert_crew_member_def insert_island_def insert_quest_def
      update_crew_member_unlock_eq)

lemma history_seed_user:
  "quest_history_tbl (snd (seed_user (ledger now) uid d)) = quest_history_tbl d"
  using seed_user_ledger[of now uid d] by auto

lemma history_seed_on_empty_catalogue:
  assumes "islands_tbl d = []"
  shows "quest_history_tbl (snd (seedWorldMapData (ledger now) d)) = quest_history_tbl d"
proof -
  have d0: "seed_delete_existing d = d"
    using assms by (simp add: seed_delete_existing_def)
  have users: "quest_history_tbl (snd (seed_users (ledger now) s)) = quest_history_tbl s" for s
    unfolding seed_users_def by (rule history_for_each) (rule history_seed_user)
  show ?thesis
    unfolding seedWorldMapData_def d0 seed_crew_step1_def seed_islands_def seed_crew_step2_def
      seed_quests_def
    by (intro history_and_then history_for_each history_inserts users)
qed

lemma history_reconcile_loop:
  "quest_history_tbl (snd (initializeExistingUsers_loop (ledger now) us n d)) = quest_history_tbl d"
proof (induction us arbitrary: n d)
  case Nil
  then show ?case by simp
next
  case (Cons u us)
  show ?case
    by (simp add: reconcileUser_ledger Cons.IH)
qed

lemma history_updateIslandCoordinates:
  "quest_history_tbl (updateIslandCoordinates d) = quest_history_tbl d"
proof -
  have "quest_history_tbl (foldl (\<lambda>s c. update_island_coordinates c s) d cs) = quest_history_tbl d"
    for cs
    by (induction cs arbitrary: d) (simp_all add: update_island_coordinates_def split: prod.split)
  then show ?thesis by (simp add: updateIslandCoordinates_def)
qed

lemma history_initializeWorldMap:
  "quest_history_tbl (initializeWorldMap (ledger now) d) = quest_history_tbl d"
  by (simp add: initializeWorldMap_def history_seed_on_empty_catalogue
      initializeExistingUsers_def history_reconcile_loop history_updateIslandCoordinates)

lemma history_create:
  "quest_history_tbl (snd (create (ledger now) hash dflt new_id userData d)) = quest_history_tbl d"
proof -
  have ins: "quest_history_tbl (snd (insert_user dflt new_id n p d)) = quest_history_tbl d" for n p
    by (simp add: insert_user_def)
  have unl: "quest_history_tbl (snd (and_then (wm_unlockIsland (ledger now) new_id i)
      (\<lambda>_. wm_unlockCrewMember (ledger now) new_id c) s)) = quest_history_tbl s" for s i c
    by (intro history_and_then) (simp_all add: ledger_def history_unlockIsland history_unlockCrewMember)
  obtain r1 d1 where i: "insert_user dflt new_id (new_username userData)
      (hash (new_password userData)) d = (r1, d1)"
    by (cases "insert_user dflt new_id (new_username userData) (hash (new_password userData)) d")
  with ins[of "new_username userData" "hash (new_password userData)"]
  have h1: "quest_history_tbl d1 = quest_history_tbl d" by simp
  obtain r2 d2 where u: "and_then (wm_unlockIsland (ledger now) new_id ''island_windmill_village'')
      (\<lambda>_. wm_unlockCrewMember (ledger now) new_id ''crew_luffy'') d1 = (r2, d2)"
    by (cases "and_then (wm_unlockIsland (ledger now) new_id ''island_windmill_village'')
      (\<lambda>_. wm_unlockCrewMember (ledger now) new_id ''crew_luffy'') d1")
  with unl[of "''island_windmill_village''" "''crew_luffy''" d1]
  have h2: "quest_history_tbl d2 = quest_history_tbl d1" by simp
  show ?thesis
    using i u h1 h2
    by (cases r1; cases "findById new_id d1"; cases r2) (simp_all add: create_def)
qed

lemma history_update:
  "quest_history_tbl (snd (update hash now uid updates d)) = quest_history_tbl d"
  by (simp add: update_def Let_def update_users_where_id_def)

lemma history_startQuest:
  "quest_history_tbl (snd (startQuest now uid qid companions d)) = quest_history_tbl d"
  by (simp add: startQuest_def split: option.split)

lemma history_unlock_next_island:
  "quest_history_tbl (unlock_next_island now uid iid d) = quest_history_tbl d"
  by (simp add: unlock_next_island_def Let_def history_unlockIsland history_unlockCrewMember
      split: option.split)

lemma history_collectQuest:
  "prefix (quest_history_tbl d)
     (quest_history_tbl (snd (collectQuest cfg cleared now inst d)))"
  by (simp add: collectQuest_def Let_def addBerrys_def history_unlock_next_island
      split: option.split)

lemma perform_keeps_history:
  "prefix (quest_history_tbl d) (quest_history_tbl (perform env now op d))"
proof (cases op)
  case (CollectQuest inst)
  then show ?thesis by (simp add: history_collectQuest)
qed (simp_all add: history_initializeWorldMap initializeExistingUsers_def history_reconcile_loop
    history_updateIslandCoordinates history_create history_update updateLastLogin_def
    delete_def addBerrys_def history_unlockIsland history_unlockCrewMember history_startQuest)

lemma run_keeps_history:
  "prefix (quest_history_tbl d) (quest_history_tbl (run env ops d))"
proof (induction ops arbitrary: d)
  case Nil
  then show ?case by simp
next
  case (Cons step ops)
  obtain now op where step: "step = (now, op)" by (cases step)
  have "prefix (quest_history_tbl d) (quest_history_tbl (perform env now op d))"
    by (rule perform_keeps_history)
  also have "prefix \<dots> (quest_history_tbl (run env ops (perform env now op d)))"
    by (rule Cons.IH)
  finally show ?case by (simp add: step)
qed

text \<open>
  C5. Quest history is append-only. Every operation of the running server, and every run
  of such operations, leaves the history it found as a prefix of the history it leaves:
  no existing record is changed or removed. Only Collect adds one.
\<close>

theorem quest_history_append_only:
  "prefix (quest_history_tbl d) (quest_history_tbl (perform env now op d))
   \<and> prefix (quest_history_tbl d) (quest_history_tbl (run env ops d))"
  by (simp add: perform_keeps_history run_keeps_history)

text \<open>
  The seed script run by hand on a populated catalogue is the one path of the sources
  that empties the history table. The start-up block never takes it: it calls the seed
  only when the \<open>islands\<close> table is empty.
\<close>

lemma seedWorldMapData_by_hand_clears_history:
  assumes "islands_tbl d \<noteq> []"
  shows "quest_history_tbl (snd (seedWorldMapData (ledger now) d)) = []"
proof -
  have users: "quest_history_tbl (snd (seed_users (ledger now) s)) = quest_history_tbl s" for s
    unfolding seed_users_def by (rule history_for_each) (rule history_seed_user)
  have "quest_history_tbl (snd (seedWorldMapData (ledger now) d))
      = quest_history_tbl (seed_delete_existing d)"
    unfolding seedWorldMapData_def seed_crew_step1_def seed_islands_def seed_crew_step2_def
      seed_quests_def
    by (intro history_and_then history_for_each history_inserts users)
  with assms show ?thesis
    by (simp add: seed_delete_existing_def delete_world_map_def)
qed

theorem quest_history_append_only_witness:
  "quest_history_tbl sample_world = [sample_record]
   \<and> quest_history_tbl (perform sample_environment (2 * hour) (CollectQuest sample_instance) sample_world)
       = [sample_record,
          \<lparr>h_user_id = ''u1'', h_quest_id = ''quest_fuchsia_1'', h_crew = [''crew_luffy''],
            h_started_at = 0, h_completed_at = 2 * hour, h_reward_berrys = 50\<rparr>]
   \<and> prefix (quest_history_tbl sample_world)
        (quest_history_tbl (run sample_environment
           [(1, StartUp), (2 * hour, CollectQuest sample_instance), (3 * hour, DeleteUser ''u1'')]
           sample_world))"
proof -
  have q: "find (\<lambda>q. q_id q = ''quest_fuchsia_1'') (quests_tbl sample_world) =
     Some (quest_row_of \<lparr>qd_id = ''quest_fuchsia_1'', qd_island_id = ''island_windmill_village'',
       qd_duration_hours = 1, qd_reward_berrys = 50, qd_required_crew_count = 1,
       qd_specific_crew_member_id = Some ''crew_luffy'', qd_order_index = 1,
       qd_is_repeatable = True\<rparr>)"
    by (simp add: sample_world_def quests_def quest_row_of_def)
  have a: "sample_instance \<in> set (active_quests_tbl sample_world)"
    by (simp add: sample_world_def)
  have h: "quest_history_tbl sample_world = [sample_record]"
    by (simp add: sample_world_def)
  have "quest_history_tbl (snd (collectQuest (env_sql sample_environment)
          (env_isIslandCleared sample_environment) (2 * hour)
          sample_instance sample_world))
       = [sample_record,
          \<lparr>h_user_id = ''u1'', h_quest_id = ''quest_fuchsia_1'', h_crew = [''crew_luffy''],
            h_started_at = 0, h_completed_at = 2 * hour, h_reward_berrys = 50\<rparr>]"
    using q a h
    by (simp add: collectQuest_def Let_def sample_instance_def quest_row_of_def
        sample_environment_def addBerrys_def)
  then show ?thesis
    using h quest_history_append_only[of sample_world sample_environment 0 StartUp
        "[(1, StartUp), (2 * hour, CollectQuest sample_instance), (3 * hour, DeleteUser ''u1'')]"]
    by simp
qed

end
